theory Spec2Isabelle
  imports Complex_Main "HOL-Library.AList" "HOL-Library.Sublist" "HOL-Library.Multiset"
begin

section \<open>The pipeline engine (pipeline/base\_pipeline.py)\<close>

text \<open>
  A Python exception is a value carrying the name of its class and its message
  (\<open>type(e).__name__\<close> and \<open>str(e)\<close>). Only exceptions derived from \<open>Exception\<close> are
  modelled: they are the ones the handlers of the engine catch.
\<close>

datatype exn = Exn (exn_type: string) (exn_msg: string)

text \<open>
  The context handed from step to step is a Python dict with string keys. The engine
  copies the input once and hands that one dict, not a copy of it, to every step: what a
  step writes to it stays, also when the step raises afterwards. So a call of a step
  gives, next to what it returns or raises, the dict as the call leaves it. What a step
  returns is a dict of its own or the very dict it was given; in the second case the
  result that the engine records is that dict and changes with it.
\<close>

type_synonym 'v dict = "string \<rightharpoonup> 'v"

datatype 'v returned = NewDict "'v dict" | TheContext

text \<open>
  \<open>PipelineStep\<close>: the attributes set by \<open>__init__\<close> and the three methods. A method that can
  raise returns a sum. A step reads and writes files, so \<open>execute\<close> takes the state \<open>'w\<close> of
  everything outside the Python objects and returns it changed. The wall-clock attribute
  \<open>execution_time\<close> is left out: no branch of the engine reads it.
\<close>

record ('v, 'w) PipelineStep =
  step_name :: string
  step_status :: string
  error_message :: "string option"
  validate_inputs :: "'v dict \<Rightarrow> (exn + bool) \<times> 'v dict"
  step_execute :: "'v dict \<Rightarrow> 'w \<Rightarrow> (exn + 'v returned) \<times> 'v dict \<times> 'w"
  cleanup :: "exn option"

record error_info =
  ei_step_name :: string
  ei_step_index :: nat
  ei_error :: string
  ei_error_type :: string

text \<open>One value of the dict \<open>results['step_results']\<close>, keyed by the name of the step.\<close>

record 'v step_outcome =
  so_result :: "'v returned option"
  so_status :: string
  so_error :: "string option"

text \<open>One element of the list \<open>results['metadata']['steps_executed']\<close>.\<close>

record executed_info =
  ex_name :: string
  ex_index :: nat
  ex_status :: string

text \<open>
  \<open>self.results\<close>. The dict \<open>step_results\<close> is an association list in insertion order; an
  assignment \<open>d[k] = v\<close> is \<^const>\<open>AList.update\<close>, which replaces the value of a key that is
  present and appends a key that is not. The entries the \<open>finally\<close> block adds to the
  metadata are optional fields. \<open>run_context\<close> is the dict \<open>current_data\<close> of the run, which
  a recorded result refers to when the step returned the dict it was given.
\<close>

record 'v run_results =
  input_data :: "'v dict"
  step_results :: "(string \<times> 'v step_outcome) list"
  steps_executed :: "executed_info list"
  res_error :: "string option"
  meta_status :: "string option"
  meta_errors :: "error_info list option"
  run_context :: "'v dict"

text \<open>The dict that the caller finds as the \<open>result\<close> of a recorded outcome.\<close>

definition result_dict :: "'v run_results \<Rightarrow> 'v step_outcome \<Rightarrow> 'v dict option" where
  "result_dict res outcome =
     (case so_result outcome of
        None \<Rightarrow> None
      | Some (NewDict r) \<Rightarrow> Some r
      | Some TheContext \<Rightarrow> Some (run_context res))"

record ('v, 'w) BasePipeline =
  steps :: "('v, 'w) PipelineStep list"
  results :: "'v run_results"
  status :: string
  current_step_index :: nat
  continue_on_error :: bool
  errors :: "error_info list"

definition empty_results :: "'v dict \<Rightarrow> 'v run_results" where
  "empty_results inp =
     \<lparr>input_data = inp, step_results = [], steps_executed = [], res_error = None,
      meta_status = None, meta_errors = None, run_context = inp\<rparr>"

definition BasePipeline_init :: "('v, 'w) BasePipeline" where
  "BasePipeline_init =
     \<lparr>steps = [], results = empty_results Map.empty, status = ''initialized'',
      current_step_index = 0, continue_on_error = False, errors = []\<rparr>"

definition add_step ::
  "('v, 'w) BasePipeline \<Rightarrow> ('v, 'w) PipelineStep \<Rightarrow> ('v, 'w) BasePipeline" where
  "add_step self s = self\<lparr>steps := steps self @ [s]\<rparr>"

text \<open>
  The body of the inner \<open>try\<close>, up to the first statement that can raise: the validation,
  a \<open>ValueError\<close> when it answers False, then the step itself, each on the dict as the call
  before left it.
\<close>

definition try_step ::
  "('v, 'w) PipelineStep \<Rightarrow> 'v dict \<Rightarrow> 'w \<Rightarrow> (exn + 'v returned) \<times> 'v dict \<times> 'w" where
  "try_step s current_data w =
     (case validate_inputs s current_data of
        (Inl e, data) \<Rightarrow> (Inl e, data, w)
      | (Inr ok, data) \<Rightarrow>
          if \<not> ok
          then (Inl (Exn ''ValueError'' (''Input validation failed for step: '' @ step_name s)),
                data, w)
          else step_execute s data w)"

text \<open>
  \<open>if step_result: current_data.update(step_result)\<close>, on the dict as the step left it.
  Updating a dict with itself changes nothing.
\<close>

definition merge_result :: "'v dict \<Rightarrow> 'v returned \<Rightarrow> 'v dict" where
  "merge_result current_data step_result =
     (case step_result of
        NewDict r \<Rightarrow> current_data ++ r
      | TheContext \<Rightarrow> current_data)"

text \<open>
  The \<open>for\<close> loop of \<open>execute\<close> over the steps that are left, \<open>i\<close> being the index of the
  first of them. It returns the step objects as the loop leaves them, the pipeline object,
  the exception that left the loop, if any, the dict \<open>current_data\<close> and the outside state.
  After a failure the loop goes on with the dict as the failed step left it: the \<open>except\<close>
  branch does not touch it. An exception of \<open>cleanup\<close> is caught and logged in the
  \<open>finally\<close> block and changes nothing.
\<close>

fun run_steps ::
  "nat \<Rightarrow> ('v, 'w) PipelineStep list \<Rightarrow> 'v dict \<Rightarrow> ('v, 'w) BasePipeline \<Rightarrow> 'w
     \<Rightarrow> ('v, 'w) PipelineStep list \<times> ('v, 'w) BasePipeline \<times> exn option \<times> 'v dict \<times> 'w" where
  "run_steps i [] current_data self w = ([], self, None, current_data, w)"
| "run_steps i (s # ss) current_data self w =
     (let self1 = self\<lparr>current_step_index := i\<rparr>;
          s1 = s\<lparr>step_status := ''running''\<rparr>
      in case try_step s1 current_data w of
           (Inr step_result, data, w1) \<Rightarrow>
             (let current_data' = merge_result data step_result;
                  s2 = s1\<lparr>step_status := ''completed''\<rparr>;
                  res = results self1;
                  res' = res\<lparr>step_results :=
                               AList.update (step_name s2)
                                 \<lparr>so_result = Some step_result, so_status = ''success'',
                                  so_error = None\<rparr> (step_results res),
                             steps_executed := steps_executed res @
                                 [\<lparr>ex_name = step_name s2, ex_index = i, ex_status = ''success''\<rparr>]\<rparr>;
                  self2 = self1\<lparr>results := res'\<rparr>
              in case run_steps (Suc i) ss current_data' self2 w1 of
                   (ss', self', raised, final_data, w') \<Rightarrow>
                     (s2 # ss', self', raised, final_data, w'))
         | (Inl e, data, w1) \<Rightarrow>
             (let s2 = s1\<lparr>step_status := ''failed'', error_message := Some (exn_msg e)\<rparr>;
                  info = \<lparr>ei_step_name = step_name s2, ei_step_index = i,
                          ei_error = exn_msg e, ei_error_type = exn_type e\<rparr>;
                  res = results self1;
                  res' = res\<lparr>step_results :=
                               AList.update (step_name s2)
                                 \<lparr>so_result = None, so_status = ''failed'',
                                  so_error = Some (exn_msg e)\<rparr> (step_results res)\<rparr>;
                  self2 = self1\<lparr>errors := errors self1 @ [info], results := res'\<rparr>
              in if \<not> continue_on_error self2 then (s2 # ss, self2, Some e, data, w1)
                 else case run_steps (Suc i) ss data self2 w1 of
                        (ss', self', raised, final_data, w') \<Rightarrow>
                          (s2 # ss', self', raised, final_data, w')))"

text \<open>The outer \<open>finally\<close> block: the status and the errors go into the metadata.\<close>

definition finalize :: "('v, 'w) BasePipeline \<Rightarrow> ('v, 'w) BasePipeline" where
  "finalize self =
     self\<lparr>results := (results self)\<lparr>meta_status := Some (status self),
                                     meta_errors := Some (errors self)\<rparr>\<rparr>"

text \<open>
  \<open>BasePipeline.execute\<close>. The caller sees the pipeline object afterwards, either the
  returned \<open>self.results\<close> or the exception that was raised again, and the outside state.
\<close>

definition execute ::
  "('v, 'w) BasePipeline \<Rightarrow> 'v dict \<Rightarrow> bool \<Rightarrow> 'w
     \<Rightarrow> ('v, 'w) BasePipeline \<times> (exn + 'v run_results) \<times> 'w" where
  "execute self inp coe w =
     (let self1 = self\<lparr>continue_on_error := coe, status := ''running'', current_step_index := 0,
                       results := empty_results inp\<rparr>
      in case run_steps 0 (steps self1) inp self1 w of
           (ss', self2, None, final_data, w') \<Rightarrow>
             (let self3 = finalize (self2\<lparr>steps := ss', status := ''completed'',
                                          results := (results self2)\<lparr>run_context := final_data\<rparr>\<rparr>)
              in (self3, Inr (results self3), w'))
         | (ss', self2, Some e, final_data, w') \<Rightarrow>
             (let self3 = finalize (self2\<lparr>steps := ss', status := ''failed'',
                                          results := (results self2)
                                            \<lparr>res_error := Some (exn_msg e),
                                             run_context := final_data\<rparr>\<rparr>)
              in (self3, Inl e, w')))"

section \<open>Intensity standardization (preprocessing/standardization)\<close>

text \<open>
  An image is the array that \<open>sitk.GetArrayFromImage\<close> gives, flattened to the list of its
  voxels; it has the pixel type of the image, an integer type or a floating-point type.
  The geometry that \<open>CopyInformation\<close> carries over plays no part. Floating-point numbers
  are idealised as reals: rounding, NaN and the infinities are outside the model, and so is
  the width of the integer types. The messages of the exceptions raised inside numpy and
  the interpreter are abbreviated.
\<close>

datatype ndarray = FloatArray "real list" | IntArray "int list"

type_synonym image = ndarray

text \<open>The values of the voxels: comparisons and arithmetic with floats take them as numbers.\<close>

definition voxels :: "ndarray \<Rightarrow> real list" where
  "voxels a = (case a of FloatArray xs \<Rightarrow> xs | IntArray xs \<Rightarrow> map real_of_int xs)"

text \<open>
  \<open>np.zeros_like(a)\<close> is an array of the dtype of \<open>a\<close>, and an assignment of floating-point
  values to elements of an integer array converts them without notice, cutting off the
  fraction. Every assignment converts the values it stores, so an element ends as the
  conversion of the value assigned to it last: the model computes the values and converts
  them once, with \<open>stored_like\<close>.
\<close>

definition trunc_to_int :: "real \<Rightarrow> int" where
  "trunc_to_int x = (if x \<ge> 0 then \<lfloor>x\<rfloor> else \<lceil>x\<rceil>)"

definition stored_like :: "ndarray \<Rightarrow> real list \<Rightarrow> ndarray" where
  "stored_like a vals =
     (case a of
        FloatArray _ \<Rightarrow> FloatArray vals
      | IntArray _ \<Rightarrow> IntArray (map trunc_to_int vals))"

subsection \<open>The numpy functions used\<close>

text \<open>
  \<open>np.percentile(a, q)\<close> with the default linear interpolation, on the sorted data: the
  virtual index \<open>(n - 1) * q / 100\<close>, its floor and the next index, and the interpolation
  between the two values.
\<close>

definition percentile1 :: "real list \<Rightarrow> real \<Rightarrow> real" where
  "percentile1 a q =
     (let n = length a;
          h = real (n - 1) * (q / 100);
          lo = nat \<lfloor>h\<rfloor>;
          hi = min (lo + 1) (n - 1)
      in a ! lo + (a ! hi - a ! lo) * (h - real lo))"

text \<open>
  The percentiles are checked first; on an empty array the selection of the order
  statistics raises (numpy 1.22 and later).
\<close>

definition np_percentile :: "real list \<Rightarrow> real list \<Rightarrow> exn + real list" where
  "np_percentile xs qs =
     (if \<not> list_all (\<lambda>q. 0 \<le> q \<and> q \<le> 100) qs
      then Inl (Exn ''ValueError'' ''Percentiles must be in the range [0, 100]'')
      else if xs = []
      then Inl (Exn ''IndexError'' ''index -1 is out of bounds for axis 0 with size 0'')
      else Inr (map (percentile1 (sort xs)) qs))"

text \<open>
  \<open>np.mean\<close>, \<open>np.std\<close> and \<open>np.median\<close>. On an empty array numpy warns and returns NaN;
  the model has no NaN and gives 0 there. \<open>ZScoreStandardizer.transform\<close> applies such
  a statistic to the selected voxels only, of which there are none in that case;
  \<open>ZScoreStandardizer.train\<close> on images without a voxel above 0 stores it, and no property
  below is about a model trained so.
\<close>

definition np_mean :: "real list \<Rightarrow> real" where
  "np_mean xs = (if xs = [] then 0 else sum_list xs / real (length xs))"

definition np_std :: "real list \<Rightarrow> real" where
  "np_std xs = sqrt (np_mean (map (\<lambda>x. (x - np_mean xs)\<^sup>2) xs))"

definition np_median :: "real list \<Rightarrow> real" where
  "np_median xs =
     (let s = sort xs; n = length s
      in if n = 0 then 0
         else if n mod 2 = 1 then s ! (n div 2)
         else (s ! (n div 2 - 1) + s ! (n div 2)) / 2)"

text \<open>\<open>np.mean(rows, axis=0)\<close> for a non-empty list of rows of one length.\<close>

definition mean_axis0 :: "real list list \<Rightarrow> real list" where
  "mean_axis0 rows =
     (case rows of
        [] \<Rightarrow> []
      | r # _ \<Rightarrow> map (\<lambda>j. sum_list (map (\<lambda>row. row ! j) rows) / real (length rows)) [0..<length r])"

text \<open>
  \<open>xs[i]\<close> on the attribute \<open>standard_landmarks\<close>, which is \<open>None\<close> until \<open>train\<close> has set
  it: negative indices count from the end, an index out of range raises.
\<close>

definition py_index :: "real list option \<Rightarrow> int \<Rightarrow> exn + real" where
  "py_index xs i =
     (case xs of
        None \<Rightarrow> Inl (Exn ''TypeError'' ''NoneType object is not subscriptable'')
      | Some l \<Rightarrow>
          (let n = int (length l); j = (if i < 0 then n + i else i)
           in if 0 \<le> j \<and> j < n then Inr (l ! nat j)
              else Inl (Exn ''IndexError'' ''index out of bounds'')))"

subsection \<open>The base class and the parameter file\<close>

datatype param = PFloats "real list" | PFloat real | PBool bool

record IntensityStandardizer =
  trained :: bool
  parameters :: "string \<rightharpoonup> param"

text \<open>
  The files written with \<open>json.dump\<close>, by path. A dict of floats, lists of floats and
  booleans is read back by \<open>json.load\<close> as it was written.
\<close>

type_synonym param_files = "string \<rightharpoonup> (string \<rightharpoonup> param)"

definition save_parameters ::
  "'a IntensityStandardizer_scheme \<Rightarrow> string \<Rightarrow> param_files \<Rightarrow> param_files" where
  "save_parameters self filepath fs = fs(filepath \<mapsto> parameters self)"

definition load_parameters ::
  "'a IntensityStandardizer_scheme \<Rightarrow> string \<Rightarrow> param_files
     \<Rightarrow> exn + 'a IntensityStandardizer_scheme" where
  "load_parameters self filepath fs =
     (case fs filepath of
        None \<Rightarrow> Inl (Exn ''FileNotFoundError'' filepath)
      | Some ps \<Rightarrow> Inr (self\<lparr>parameters := ps, trained := True\<rparr>))"

subsection \<open>NyulStandardizer\<close>

record NyulStandardizer = IntensityStandardizer +
  landmarks_percentage :: "real list"
  standard_scale :: "real \<times> real"
  standard_landmarks :: "real list option"

definition NyulStandardizer_init :: "real list \<Rightarrow> real \<times> real \<Rightarrow> NyulStandardizer" where
  "NyulStandardizer_init lp sc =
     \<lparr>trained = False, parameters = Map.empty, landmarks_percentage = lp,
      standard_scale = sc, standard_landmarks = None\<rparr>"

definition default_landmarks_percentage :: "real list" where
  "default_landmarks_percentage = [0, 10, 20, 30, 40, 50, 60, 70, 80, 90, 100]"

definition default_standard_scale :: "real \<times> real" where
  "default_standard_scale = (0, 100)"

text \<open>The first loop of \<open>train\<close>: the landmarks of every image, up to the first that raises.\<close>

fun all_landmarks :: "real list \<Rightarrow> image list \<Rightarrow> exn + real list list" where
  "all_landmarks lp [] = Inr []"
| "all_landmarks lp (img # imgs) =
     (case np_percentile (filter (\<lambda>v. v > 0) (voxels img)) lp of
        Inl e \<Rightarrow> Inl e
      | Inr landmarks \<Rightarrow>
          (case all_landmarks lp imgs of
             Inl e \<Rightarrow> Inl e
           | Inr rest \<Rightarrow> Inr (landmarks # rest)))"

text \<open>
  The assignments of \<open>train\<close> to the averaged vector: index 0, index -1, then the loop over
  \<open>range(1, len - 1)\<close>.
\<close>

definition map_to_scale :: "real \<times> real \<Rightarrow> real list \<Rightarrow> real list" where
  "map_to_scale sc sl =
     (let sl1 = sl[0 := fst sc];
          sl2 = sl1[length sl1 - 1 := snd sc]
      in fold (\<lambda>i l. l[i := fst sc + (snd sc - fst sc) * (real i / real (length l - 1))])
              [1..<length sl2 - 1] sl2)"

text \<open>
  \<open>NyulStandardizer.train\<close>. The mean of no rows is a NaN scalar and the mean of empty rows
  an empty array: the assignment to index 0 raises on both.
\<close>

definition Nyul_train :: "NyulStandardizer \<Rightarrow> image list \<Rightarrow> exn + NyulStandardizer" where
  "Nyul_train self images =
     (case all_landmarks (landmarks_percentage self) images of
        Inl e \<Rightarrow> Inl e
      | Inr rows \<Rightarrow>
          if rows = []
          then Inl (Exn ''TypeError'' ''numpy.float64 object does not support item assignment'')
          else if mean_axis0 rows = []
          then Inl (Exn ''IndexError'' ''index 0 is out of bounds for axis 0 with size 0'')
          else (let sl = map_to_scale (standard_scale self) (mean_axis0 rows)
                in Inr (self\<lparr>standard_landmarks := Some sl,
                              parameters := (parameters self)
                                (''standard_landmarks'' \<mapsto> PFloats sl,
                                 ''landmarks_percentage'' \<mapsto> PFloats (landmarks_percentage self)),
                              trained := True\<rparr>)))"

text \<open>
  The loop of \<open>transform\<close> over the landmark intervals, on the values of the image and
  of the array \<open>standardized\<close>. The standard landmarks are read only inside \<open>if upper > lower\<close>.
\<close>

fun map_intervals ::
  "real list option \<Rightarrow> real list \<Rightarrow> real list \<Rightarrow> nat list \<Rightarrow> real list
     \<Rightarrow> exn + real list" where
  "map_intervals sl img_landmarks img [] standardized = Inr standardized"
| "map_intervals sl img_landmarks img (i # rest) standardized =
     (let lower = img_landmarks ! i; upper = img_landmarks ! (i + 1)
      in if upper > lower
         then (case py_index sl (int i + 1) of
                 Inl e \<Rightarrow> Inl e
               | Inr b \<Rightarrow>
                   (case py_index sl (int i) of
                      Inl e \<Rightarrow> Inl e
                    | Inr a \<Rightarrow>
                        (let slope = (b - a) / (upper - lower)
                         in map_intervals sl img_landmarks img rest
                              (map (\<lambda>(v, s). if lower \<le> v \<and> v < upper
                                              then a + slope * (v - lower) else s)
                                   (zip img standardized)))))
         else map_intervals sl img_landmarks img rest standardized)"

text \<open>
  \<open>NyulStandardizer.transform\<close>: first the values that its assignments give to
  \<open>standardized\<close>, then the array of the dtype of the input that holds them.
\<close>

definition Nyul_standardized :: "NyulStandardizer \<Rightarrow> real list \<Rightarrow> exn + real list" where
  "Nyul_standardized self img =
     (if \<not> trained self
      then Inl (Exn ''RuntimeError'' ''Standardizer must be trained before transform'')
      else case np_percentile (filter (\<lambda>v. v > 0) img) (landmarks_percentage self) of
             Inl e \<Rightarrow> Inl e
           | Inr img_landmarks \<Rightarrow>
               (case map_intervals (standard_landmarks self) img_landmarks img
                       [0..<length (landmarks_percentage self) - 1]
                       (replicate (length img) 0) of
                  Inl e \<Rightarrow> Inl e
                | Inr std1 \<Rightarrow>
                    (case py_index (standard_landmarks self) (- 1) of
                       Inl e \<Rightarrow> Inl e
                     | Inr top_value \<Rightarrow>
                         if img_landmarks = []
                         then Inl (Exn ''IndexError'' ''index -1 is out of bounds for axis 0 with size 0'')
                         else (let std2 = map (\<lambda>(v, s). if v \<ge> last img_landmarks then top_value else s)
                                              (zip img std1);
                                   std3 = map (\<lambda>(v, s). if v = 0 then 0 else s) (zip img std2)
                               in Inr std3))))"

definition Nyul_transform :: "NyulStandardizer \<Rightarrow> image \<Rightarrow> exn + image" where
  "Nyul_transform self img =
     (case Nyul_standardized self (voxels img) of
        Inl e \<Rightarrow> Inl e
      | Inr standardized \<Rightarrow> Inr (stored_like img standardized))"

subsection \<open>ZScoreStandardizer\<close>

record ZScoreStandardizer = IntensityStandardizer +
  use_robust_statistics :: bool
  global_mean :: "real option"
  global_std :: "real option"

definition ZScoreStandardizer_init :: "bool \<Rightarrow> ZScoreStandardizer" where
  "ZScoreStandardizer_init robust =
     \<lparr>trained = False, parameters = Map.empty, use_robust_statistics = robust,
      global_mean = None, global_std = None\<rparr>"

text \<open>The two statistics of a list of values, as both \<open>train\<close> and \<open>transform\<close> compute them.\<close>

definition statistics :: "bool \<Rightarrow> real list \<Rightarrow> real \<times> real" where
  "statistics robust vals =
     (if robust
      then (let m = np_median vals
            in (m, np_median (map (\<lambda>x. \<bar>x - m\<bar>) vals) * (14826 / 10000)))
      else (np_mean vals, np_std vals))"

definition ZScore_train :: "ZScoreStandardizer \<Rightarrow> image list \<Rightarrow> ZScoreStandardizer" where
  "ZScore_train self images =
     (let all_values = concat (map (\<lambda>img. filter (\<lambda>v. v > 0) (voxels img)) images);
          (m, sd) = statistics (use_robust_statistics self) all_values
      in self\<lparr>global_mean := Some m, global_std := Some sd,
              parameters := (parameters self)
                (''global_mean'' \<mapsto> PFloat m, ''global_std'' \<mapsto> PFloat sd,
                 ''use_robust'' \<mapsto> PBool (use_robust_statistics self)),
              trained := True\<rparr>)"

text \<open>
  \<open>ZScoreStandardizer.transform\<close>, in the same two parts. With \<open>trained\<close> set and an
  attribute still \<open>None\<close>, the subtraction raises.
\<close>

definition ZScore_standardized :: "ZScoreStandardizer \<Rightarrow> real list \<Rightarrow> exn + real list" where
  "ZScore_standardized self img =
     (case (if \<not> trained self
            then (let (m, sd) = statistics (use_robust_statistics self)
                                  (filter (\<lambda>v. v > 0) img)
                  in (Some m, Some sd))
            else (global_mean self, global_std self)) of
        (Some m, Some sd) \<Rightarrow>
          Inr (map (\<lambda>v. if v > 0 then (v - m) / (sd + 1 / 10 ^ 8) else 0) img)
      | _ \<Rightarrow> Inl (Exn ''TypeError'' ''unsupported operand type(s): float and NoneType''))"

definition ZScore_transform :: "ZScoreStandardizer \<Rightarrow> image \<Rightarrow> exn + image" where
  "ZScore_transform self img =
     (case ZScore_standardized self (voxels img) of
        Inl e \<Rightarrow> Inl e
      | Inr standardized \<Rightarrow> Inr (stored_like img standardized))"


section \<open>Batch preprocessing (pipeline/batch\_preprocessing.py)\<close>

subsection \<open>The data of the batch\<close>

text \<open>One element of the list \<open>patients\<close> that the discovery step produces.\<close>

record patient_info =
  patient_id :: string
  t2w_path :: string
  adc_path :: string
  patient_dir :: string

text \<open>
  The dict that the processing of one patient yields: the keys \<open>success\<close> and, depending on
  the path taken, \<open>patient_id\<close>, \<open>outputs_saved\<close>, \<open>output_directory\<close>, \<open>execution_time\<close>,
  \<open>error\<close> and \<open>error_type\<close>. A key that is absent is \<open>None\<close>.
\<close>

record patient_result =
  success :: bool
  pr_patient_id :: "string option"
  outputs_saved :: "string list option"
  output_directory :: "string option"
  execution_time :: "real option"
  pr_error :: "string option"
  pr_error_type :: "string option"

text \<open>
  The dict that \<open>BatchReportingStep\<close> looks up under the key \<open>BatchProcessingStep\<close>; it
  reads each of the three keys with a default.
\<close>

record batch_results =
  br_successful :: "string list option"
  br_failed :: "string list option"
  br_detailed_results :: "(string \<times> patient_result) list option"

text \<open>The values that the context of the batch pipeline holds.\<close>

datatype bval =
    VStr string
  | VBool bool
  | VNat nat
  | VPatients "patient_info list"
  | VIds "string list"
  | VDetailed "(string \<times> patient_result) list"
  | VBatch batch_results
  | VStandardizer NyulStandardizer

text \<open>The three files of the report.\<close>

record batch_summary =
  sm_total_patients :: nat
  sm_successful :: nat
  sm_failed :: nat
  sm_success_rate :: real
  sm_registration_type :: string
  sm_standardization_method :: string
  sm_enable_segmentation :: bool

record csv_row =
  csv_patient_id :: string
  csv_status :: string
  csv_execution_time :: "real option"
  csv_outputs_saved :: string
  csv_error :: string

record error_block =
  eb_patient :: string
  eb_error :: string
  eb_error_type :: string

text \<open>
  What the outside does when one patient is processed: creating the output directory
  raises, or something inside the \<open>try\<close> block raises (reading an image, a step of the
  per-patient pipeline, writing an output), or the block runs to its \<open>return\<close> with the
  names of the outputs it saved and the time the pipeline took.
\<close>

datatype item_behaviour =
    MkdirRaises exn
  | BodyRaises exn
  | Completes "string list" real

text \<open>
  The state outside the Python objects: an entry of a listed directory, and the world with
  the directory listings, the images that \<open>sitk.ReadImage\<close> can read, the behaviour of
  each patient's processing, the order in which \<open>as_completed\<close> hands back the futures, and
  the files written. The output directory is taken to exist and to be writable.
\<close>

record dir_entry =
  de_name :: string
  de_is_dir :: bool
  de_children :: "string list"

record world =
  directories :: "string \<rightharpoonup> dir_entry list"
  image_files :: "string \<rightharpoonup> image"
  processing :: "patient_info \<Rightarrow> item_behaviour"
  completion_order :: "patient_info list \<Rightarrow> patient_info list"
  json_files :: param_files
  summary_files :: "string \<rightharpoonup> batch_summary"
  csv_files :: "string \<rightharpoonup> csv_row list"
  error_logs :: "string \<rightharpoonup> error_block list"

definition joinpath :: "string \<Rightarrow> string \<Rightarrow> string" where
  "joinpath d n = d @ ''/'' @ n"

definition KeyError :: "string \<Rightarrow> exn" where
  "KeyError k = Exn ''KeyError'' k"

subsection \<open>PatientDiscoveryStep\<close>

text \<open>
  Matching a file name against a pattern in which \<open>*\<close> is the only special character, as in
  the patterns of the step.
\<close>

fun fnmatch :: "string \<Rightarrow> string \<Rightarrow> bool" where
  "fnmatch [] [] = True"
| "fnmatch [] (c # cs) = False"
| "fnmatch (p # ps) [] = (p = CHR ''*'' \<and> fnmatch ps [])"
| "fnmatch (p # ps) (c # cs) =
     (if p = CHR ''*'' then fnmatch ps (c # cs) \<or> fnmatch (p # ps) cs
      else p = c \<and> fnmatch ps cs)"

definition glob :: "string list \<Rightarrow> string \<Rightarrow> string list" where
  "glob children pat = filter (fnmatch pat) children"

definition patterns :: "(string \<times> string) list" where
  "patterns =
     [(''*_t2w.nii.gz'', ''*_adc.nii.gz''),
      (''*_T2W.nii.gz'', ''*_ADC.nii.gz''),
      (''*t2.nii.gz'', ''*adc.nii.gz'')]"

text \<open>The loop over the patterns, left at the first pair for which both globs find a file.\<close>

fun match_patterns :: "(string \<times> string) list \<Rightarrow> string list \<Rightarrow> (string \<times> string) option" where
  "match_patterns [] children = None"
| "match_patterns ((t2w_pattern, adc_pattern) # rest) children =
     (case (glob children t2w_pattern, glob children adc_pattern) of
        (t # _, a # _) \<Rightarrow> Some (t, a)
      | _ \<Rightarrow> match_patterns rest children)"

text \<open>The files of one patient directory: the patterns, then the exact names.\<close>

definition find_files :: "string \<Rightarrow> string list \<Rightarrow> (string \<times> string) option" where
  "find_files pid children =
     (case match_patterns patterns children of
        Some found \<Rightarrow> Some found
      | None \<Rightarrow>
          (let exact_t2w = pid @ ''_t2w.nii.gz''; exact_adc = pid @ ''_adc.nii.gz''
           in if exact_t2w \<in> set children \<and> exact_adc \<in> set children
              then Some (exact_t2w, exact_adc) else None))"

definition startswith_dot :: "string \<Rightarrow> bool" where
  "startswith_dot n = (case n of [] \<Rightarrow> False | c # _ \<Rightarrow> c = CHR ''.'')"

text \<open>The loop over \<open>base_dir.iterdir()\<close>.\<close>

fun scan :: "string \<Rightarrow> dir_entry list \<Rightarrow> patient_info list" where
  "scan base [] = []"
| "scan base (d # ds) =
     (if \<not> de_is_dir d then scan base ds
      else if startswith_dot (de_name d) then scan base ds
      else case find_files (de_name d) (de_children d) of
             Some (t, a) \<Rightarrow>
               \<lparr>patient_id = de_name d,
                t2w_path = joinpath (joinpath base (de_name d)) t,
                adc_path = joinpath (joinpath base (de_name d)) a,
                patient_dir = joinpath base (de_name d)\<rparr> # scan base ds
           | None \<Rightarrow> scan base ds)"

definition PatientDiscoveryStep_execute :: "bval dict \<Rightarrow> world \<Rightarrow> (exn + bval dict) \<times> world" where
  "PatientDiscoveryStep_execute data w =
     (case data ''base_directory'' of
        Some (VStr base_dir) \<Rightarrow>
          (case directories w base_dir of
             None \<Rightarrow> (Inl (Exn ''FileNotFoundError'' base_dir), w)
           | Some entries \<Rightarrow>
               (let patients = scan base_dir entries
                in (Inr [''patients'' \<mapsto> VPatients patients,
                         ''total_patients'' \<mapsto> VNat (length patients)], w)))
      | _ \<Rightarrow> (Inl (KeyError ''base_directory''), w))"

subsection \<open>BatchStandardizationStep\<close>

text \<open>
  The loop that reads the training images, applied to the slice \<open>patients[:20]\<close>: an image
  that cannot be read is logged and left out.
\<close>

fun load_images :: "world \<Rightarrow> patient_info list \<Rightarrow> image list" where
  "load_images w [] = []"
| "load_images w (patient # rest) =
     (case image_files w (t2w_path patient) of
        Some img \<Rightarrow> img # load_images w rest
      | None \<Rightarrow> load_images w rest)"

definition BatchStandardizationStep_execute ::
  "string \<Rightarrow> bval dict \<Rightarrow> world \<Rightarrow> (exn + bval dict) \<times> world" where
  "BatchStandardizationStep_execute method data w =
     (case data ''patients'' of
        Some (VPatients patients) \<Rightarrow>
          if method = ''nyul''
          then (let t2w_images = load_images w (take 20 patients)
                in case Nyul_train (NyulStandardizer_init default_landmarks_percentage
                                      default_standard_scale) t2w_images of
                     Inl e \<Rightarrow> (Inl e, w)
                   | Inr t2w_standardizer \<Rightarrow>
                       (case data ''output_directory'' of
                          Some (VStr output_dir) \<Rightarrow>
                            (Inr [''t2w_standardizer'' \<mapsto> VStandardizer t2w_standardizer,
                                  ''standardization_trained'' \<mapsto> VBool True,
                                  ''training_samples'' \<mapsto> VNat (length t2w_images)],
                             w\<lparr>json_files :=
                                 save_parameters t2w_standardizer
                                   (joinpath output_dir ''nyul_parameters.json'') (json_files w)\<rparr>)
                        | _ \<Rightarrow> (Inl (KeyError ''output_directory''), w)))
          else (Inr [''standardization_trained'' \<mapsto> VBool False], w)
      | _ \<Rightarrow> (Inl (KeyError ''patients''), w))"

subsection \<open>BatchProcessingStep\<close>

text \<open>
  \<open>_process_single_patient\<close>: \<open>mkdir\<close> stands before the \<open>try\<close>, so its exception leaves the
  method; every exception inside the \<open>try\<close> becomes a result with \<open>success\<close> False.
\<close>

definition process_single_patient :: "world \<Rightarrow> patient_info \<Rightarrow> string \<Rightarrow> exn + patient_result" where
  "process_single_patient w patient output_dir =
     (case processing w patient of
        MkdirRaises e \<Rightarrow> Inl e
      | BodyRaises e \<Rightarrow>
          Inr \<lparr>success = False, pr_patient_id = Some (patient_id patient),
               outputs_saved = None, output_directory = None, execution_time = None,
               pr_error = Some (exn_msg e), pr_error_type = Some (exn_type e)\<rparr>
      | Completes outs t \<Rightarrow>
          Inr \<lparr>success = True, pr_patient_id = Some (patient_id patient),
               outputs_saved = Some outs,
               output_directory = Some (joinpath output_dir (patient_id patient)),
               execution_time = Some t, pr_error = None, pr_error_type = None\<rparr>)"

text \<open>
  The dict \<open>results\<close> of \<open>execute\<close> and the body that both loops run for one patient: the
  \<open>try\<close> around the call and the \<open>except\<close> that records a failure.
\<close>

record tracking =
  tr_successful :: "string list"
  tr_failed :: "string list"
  tr_detailed_results :: "(string \<times> patient_result) list"

definition record_patient :: "world \<Rightarrow> string \<Rightarrow> patient_info \<Rightarrow> tracking \<Rightarrow> tracking" where
  "record_patient w output_dir patient res =
     (case process_single_patient w patient output_dir of
        Inr result \<Rightarrow>
          (if success result
           then res\<lparr>tr_successful := tr_successful res @ [patient_id patient]\<rparr>
           else res\<lparr>tr_failed := tr_failed res @ [patient_id patient]\<rparr>)
            \<lparr>tr_detailed_results :=
               AList.update (patient_id patient) result (tr_detailed_results res)\<rparr>
      | Inl e \<Rightarrow>
          res\<lparr>tr_failed := tr_failed res @ [patient_id patient],
              tr_detailed_results :=
                AList.update (patient_id patient)
                  \<lparr>success = False, pr_patient_id = None, outputs_saved = None,
                   output_directory = None, execution_time = None,
                   pr_error = Some (exn_msg e), pr_error_type = None\<rparr>
                  (tr_detailed_results res)\<rparr>)"

text \<open>
  \<open>BatchProcessingStep.execute\<close>. In the parallel branch the results are recorded in the
  order in which the futures complete, in the sequential branch in the order of the list.
\<close>

definition BatchProcessingStep_execute ::
  "bool \<Rightarrow> bval dict \<Rightarrow> world \<Rightarrow> (exn + bval dict) \<times> world" where
  "BatchProcessingStep_execute is_parallel data w =
     (case data ''patients'' of
        Some (VPatients patients) \<Rightarrow>
          (case data ''output_directory'' of
             Some (VStr output_dir) \<Rightarrow>
               (let order = (if is_parallel \<and> length patients > 1
                             then completion_order w patients else patients);
                    res = fold (record_patient w output_dir) order
                            \<lparr>tr_successful = [], tr_failed = [], tr_detailed_results = []\<rparr>
                in (Inr [''successful'' \<mapsto> VIds (tr_successful res),
                         ''failed'' \<mapsto> VIds (tr_failed res),
                         ''detailed_results'' \<mapsto> VDetailed (tr_detailed_results res)], w))
           | _ \<Rightarrow> (Inl (KeyError ''output_directory''), w))
      | _ \<Rightarrow> (Inl (KeyError ''patients''), w))"

subsection \<open>BatchReportingStep\<close>

definition join_commas :: "string list \<Rightarrow> string" where
  "join_commas xs = (case xs of [] \<Rightarrow> [] | x # rest \<Rightarrow> x @ concat (map (\<lambda>y. '','' @ y) rest))"

definition get_str :: "bval dict \<Rightarrow> string \<Rightarrow> string \<Rightarrow> string" where
  "get_str data k dflt = (case data k of Some (VStr v) \<Rightarrow> v | _ \<Rightarrow> dflt)"

definition get_bool :: "bval dict \<Rightarrow> string \<Rightarrow> bool \<Rightarrow> bool" where
  "get_bool data k dflt = (case data k of Some (VBool v) \<Rightarrow> v | _ \<Rightarrow> dflt)"

definition empty_batch_results :: batch_results where
  "empty_batch_results = \<lparr>br_successful = None, br_failed = None, br_detailed_results = None\<rparr>"

definition or_default :: "'a option \<Rightarrow> 'a \<Rightarrow> 'a" where
  "or_default x dflt = (case x of Some v \<Rightarrow> v | None \<Rightarrow> dflt)"

definition make_summary :: "bval dict \<Rightarrow> batch_results \<Rightarrow> nat \<Rightarrow> batch_summary" where
  "make_summary data batch n_total =
     \<lparr>sm_total_patients = n_total,
      sm_successful = length (or_default (br_successful batch) []),
      sm_failed = length (or_default (br_failed batch) []),
      sm_success_rate =
        (if n_total > 0 then real (length (or_default (br_successful batch) [])) / real n_total
         else 0),
      sm_registration_type = get_str data ''registration_type'' ''unknown'',
      sm_standardization_method = get_str data ''standardization_method'' ''unknown'',
      sm_enable_segmentation = get_bool data ''enable_segmentation'' False\<rparr>"

definition make_row :: "string \<times> patient_result \<Rightarrow> csv_row" where
  "make_row item =
     \<lparr>csv_patient_id = fst item,
      csv_status = (if success (snd item) then ''Success'' else ''Failed''),
      csv_execution_time = execution_time (snd item),
      csv_outputs_saved = join_commas (or_default (outputs_saved (snd item)) []),
      csv_error = or_default (pr_error (snd item)) []\<rparr>"

definition make_error_block :: "(string \<times> patient_result) list \<Rightarrow> string \<Rightarrow> error_block" where
  "make_error_block detailed pid =
     (case map_of detailed pid of
        Some result \<Rightarrow>
          \<lparr>eb_patient = pid,
           eb_error = or_default (pr_error result) ''Unknown error'',
           eb_error_type = or_default (pr_error_type result) ''Unknown''\<rparr>
      | None \<Rightarrow> \<lparr>eb_patient = pid, eb_error = ''Unknown error'', eb_error_type = ''Unknown''\<rparr>)"

text \<open>
  \<open>BatchReportingStep.execute\<close>. The batch results are looked up in the context under the
  key \<open>BatchProcessingStep\<close>, with the empty dict as default. The time stamps of the
  summary and of the error log are left out.
\<close>

definition BatchReportingStep_execute :: "bval dict \<Rightarrow> world \<Rightarrow> (exn + bval dict) \<times> world" where
  "BatchReportingStep_execute data w =
     (case data ''output_directory'' of
        Some (VStr output_dir) \<Rightarrow>
          (case data ''total_patients'' of
             Some (VNat n_total) \<Rightarrow>
               (case (case data ''BatchProcessingStep'' of
                        None \<Rightarrow> Inr empty_batch_results
                      | Some (VBatch b) \<Rightarrow> Inr b
                      | Some _ \<Rightarrow> Inl (Exn ''AttributeError'' ''object has no attribute get'')) of
                  Inl e \<Rightarrow> (Inl e, w)
                | Inr batch \<Rightarrow>
                    (let reports_dir = joinpath output_dir ''reports'';
                         summary_path = joinpath reports_dir ''batch_summary.json'';
                         csv_path = joinpath reports_dir ''batch_results.csv'';
                         detailed = or_default (br_detailed_results batch) [];
                         w1 = w\<lparr>summary_files := (summary_files w)
                                   (summary_path \<mapsto> make_summary data batch n_total)\<rparr>;
                         w2 = w1\<lparr>csv_files := (csv_files w1)(csv_path \<mapsto> map make_row detailed)\<rparr>;
                         w3 = (if or_default (br_failed batch) [] \<noteq> []
                               then w2\<lparr>error_logs := (error_logs w2)
                                         (joinpath reports_dir ''error_log.txt'' \<mapsto>
                                            map (make_error_block detailed)
                                                (or_default (br_failed batch) []))\<rparr>
                               else w2)
                     in (Inr [''summary_path'' \<mapsto> VStr summary_path,
                              ''csv_path'' \<mapsto> VStr csv_path,
                              ''reports_directory'' \<mapsto> VStr reports_dir], w3)))
           | _ \<Rightarrow> (Inl (KeyError ''total_patients''), w))
      | _ \<Rightarrow> (Inl (KeyError ''output_directory''), w))"

subsection \<open>BatchPreprocessingPipeline\<close>

text \<open>
  A step with the inherited \<open>validate_inputs\<close> whose \<open>execute\<close> reads the dict it is given,
  writes nothing to it and returns a dict of its own, as the steps of this file do.
\<close>

definition make_step ::
  "string \<Rightarrow> ('v dict \<Rightarrow> 'w \<Rightarrow> (exn + 'v dict) \<times> 'w) \<Rightarrow> ('v, 'w) PipelineStep" where
  "make_step n f =
     \<lparr>step_name = n, step_status = ''pending'', error_message = None,
      validate_inputs = (\<lambda>data. (Inr True, data)),
      step_execute = (\<lambda>data w. case f data w of
                                   (Inl e, w') \<Rightarrow> (Inl e, data, w')
                                 | (Inr r, w') \<Rightarrow> (Inr (NewDict r), data, w')),
      cleanup = None\<rparr>"

text \<open>The constructor: the four steps in the order in which they are added.\<close>

definition BatchPreprocessingPipeline :: "string \<Rightarrow> bool \<Rightarrow> (bval, world) BasePipeline" where
  "BatchPreprocessingPipeline standardization_method parallel_processing =
     add_step (add_step (add_step (add_step BasePipeline_init
       (make_step ''PatientDiscoveryStep'' PatientDiscoveryStep_execute))
       (make_step ''BatchStandardizationStep''
          (BatchStandardizationStep_execute standardization_method)))
       (make_step ''BatchProcessingStep'' (BatchProcessingStep_execute parallel_processing)))
       (make_step ''BatchReportingStep'' BatchReportingStep_execute)"


section \<open>The work list in the words of the specification\<close>


section \<open>Example pipelines\<close>

text \<open>
  Steps over a context of numbers whose outside state counts the calls of \<open>execute\<close>: one
  that returns a fixed dict, one that raises, one that returns a copy of the context it
  was given, and one that writes a key into the context it was given and then raises.
\<close>

definition returning_step :: "string \<Rightarrow> nat dict \<Rightarrow> (nat, nat) PipelineStep" where
  "returning_step n r = make_step n (\<lambda>data w. (Inr r, Suc w))"

definition raising_step :: "string \<Rightarrow> (nat, nat) PipelineStep" where
  "raising_step n = make_step n (\<lambda>data w. (Inl (Exn ''RuntimeError'' ''boom''), Suc w))"

definition echo_step :: "string \<Rightarrow> (nat, nat) PipelineStep" where
  "echo_step n = make_step n (\<lambda>data w. (Inr data, Suc w))"

definition writing_step :: "string \<Rightarrow> string \<Rightarrow> nat \<Rightarrow> (nat, nat) PipelineStep" where
  "writing_step n k v =
     \<lparr>step_name = n, step_status = ''pending'', error_message = None,
      validate_inputs = (\<lambda>data. (Inr True, data)),
      step_execute = (\<lambda>data w. (Inl (Exn ''RuntimeError'' ''boom''), data(k \<mapsto> v), Suc w)),
      cleanup = None\<rparr>"

definition three_steps :: "string \<Rightarrow> string \<Rightarrow> string \<Rightarrow> (nat, nat) BasePipeline" where
  "three_steps a b c =
     add_step (add_step (add_step BasePipeline_init
       (returning_step a [''x'' \<mapsto> 1])) (raising_step b)) (echo_step c)"

definition three_steps_writing :: "(nat, nat) BasePipeline" where
  "three_steps_writing =
     add_step (add_step (add_step BasePipeline_init
       (returning_step ''A'' [''x'' \<mapsto> 1])) (writing_step ''B'' ''k'' 9)) (echo_step ''C'')"

section \<open>Example standardizers\<close>

text \<open>
  A Nyul standardizer with the default percentiles and scale, trained on one image with the
  voxels 1, 2 and 3, and a robust Z-score standardizer trained on one image with a
  background voxel and the voxels 1, 2 and 3, both images of a floating-point type.
\<close>

definition trained_example :: NyulStandardizer where
  "trained_example =
     (case Nyul_train (NyulStandardizer_init default_landmarks_percentage default_standard_scale)
             [FloatArray [1, 2, 3]] of
        Inr s \<Rightarrow> s
      | Inl e \<Rightarrow> NyulStandardizer_init default_landmarks_percentage default_standard_scale)"

definition zscore_example :: ZScoreStandardizer where
  "zscore_example = ZScore_train (ZScoreStandardizer_init True) [FloatArray [0, 1, 2, 3]]"

section \<open>Example batch\<close>

text \<open>
  The listing of a base directory: a complete patient, a patient without ADC file, a hidden
  directory, a plain file, and a patient under the second naming convention.
\<close>

definition example_entries :: "dir_entry list" where
  "example_entries =
     [\<lparr>de_name = ''p1'', de_is_dir = True, de_children = [''p1_t2w.nii.gz'', ''p1_adc.nii.gz'']\<rparr>,
      \<lparr>de_name = ''p2'', de_is_dir = True, de_children = [''p2_t2w.nii.gz'']\<rparr>,
      \<lparr>de_name = ''.cache'', de_is_dir = True,
        de_children = [''x_t2w.nii.gz'', ''x_adc.nii.gz'']\<rparr>,
      \<lparr>de_name = ''notes.txt'', de_is_dir = False, de_children = []\<rparr>,
      \<lparr>de_name = ''p3'', de_is_dir = True,
        de_children = [''scan_T2W.nii.gz'', ''a_adc.nii.gz'', ''scan_ADC.nii.gz'']\<rparr>]"

text \<open>
  The world of the example: the listing above under \<open>/data\<close>, a readable T2W image, of
  an integer type, for the first patient only, a processing that completes for the first
  patient and raises for every other, futures that complete in reverse order, and no file
  written yet.
\<close>

definition example_world :: world where
  "example_world =
     \<lparr>directories = [''/data'' \<mapsto> example_entries],
      image_files = [''/data/p1/p1_t2w.nii.gz'' \<mapsto> IntArray [0, 1, 2, 3]],
      processing = (\<lambda>p. if patient_id p = ''p1''
                          then Completes [''t2w_standardized'', ''registered_adc''] 2
                          else BodyRaises (Exn ''RuntimeError'' ''cannot read image'')),
      completion_order = rev,
      json_files = Map.empty, summary_files = Map.empty, csv_files = Map.empty,
      error_logs = Map.empty\<rparr>"

definition example_input :: "bval dict" where
  "example_input = [''base_directory'' \<mapsto> VStr ''/data'', ''output_directory'' \<mapsto> VStr ''/out'']"

text \<open>The run of the whole batch pipeline on the example.\<close>

definition example_run ::
  "(bval, world) BasePipeline \<times> (exn + bval run_results) \<times> world" where
  "example_run =
     execute (BatchPreprocessingPipeline ''nyul'' True) example_input False example_world"

section \<open>Auxiliary notions for the batch properties\<close>

text \<open>
  The result that the loop of \<open>BatchProcessingStep.execute\<close> stores for a patient, and
  whether the processing of a patient runs to its end.
\<close>

definition recorded_result :: "world \<Rightarrow> string \<Rightarrow> patient_info \<Rightarrow> patient_result" where
  "recorded_result w output_dir patient =
     (case process_single_patient w patient output_dir of
        Inr result \<Rightarrow> result
      | Inl e \<Rightarrow>
          \<lparr>success = False, pr_patient_id = None, outputs_saved = None,
           output_directory = None, execution_time = None,
           pr_error = Some (exn_msg e), pr_error_type = None\<rparr>)"

definition completes :: "world \<Rightarrow> patient_info \<Rightarrow> bool" where
  "completes w patient = (case processing w patient of Completes outs t \<Rightarrow> True | _ \<Rightarrow> False)"

section \<open>Properties of the pipeline engine\<close>

lemma try_step_status: "try_step (s\<lparr>step_status := x\<rparr>) d w = try_step s d w"
  by (simp add: try_step_def split: prod.splits sum.splits)

lemmas engine_defs = execute_def Let_def finalize_def empty_results_def
lemmas example_defs = three_steps_def three_steps_writing_def add_step_def BasePipeline_init_def
  returning_step_def raising_step_def echo_step_def writing_step_def make_step_def try_step_def
  merge_result_def

text \<open>
  C3 (as amended). A pipeline of three steps whose first step succeeds and whose second step
  fails (its validation or its \<open>execute\<close> raises, or the validation answers False), run with
  \<open>continue_on_error\<close> False, the first two steps having different names: the exception of
  step 2 reaches the caller, the status of the pipeline and of the metadata is \<open>failed\<close>,
  \<open>step_results\<close> holds exactly two outcomes, a success for step 1 and a failure for step 2,
  and step 3 is never run: its object is untouched, and the context and the outside state
  are the ones step 2 left. The outcomes are kept in a dict under the name of the step,
  which is why the two names must differ.
\<close>

theorem execute_stops_at_failure:
  assumes "steps p = [s1, s2, s3]"
    and "try_step s1 inp w = (Inr ret1, d1, w1)"
    and "try_step s2 (merge_result d1 ret1) w1 = (Inl e, d2, w2)"
    and "step_name s1 \<noteq> step_name s2"
  shows "execute p inp False w =
           (fst (execute p inp False w), Inl e, w2)
       \<and> status (fst (execute p inp False w)) = ''failed''
       \<and> meta_status (results (fst (execute p inp False w))) = Some ''failed''
       \<and> res_error (results (fst (execute p inp False w))) = Some (exn_msg e)
       \<and> step_results (results (fst (execute p inp False w))) =
            [(step_name s1, \<lparr>so_result = Some ret1, so_status = ''success'', so_error = None\<rparr>),
             (step_name s2, \<lparr>so_result = None, so_status = ''failed'', so_error = Some (exn_msg e)\<rparr>)]
       \<and> steps (fst (execute p inp False w)) =
            [s1\<lparr>step_status := ''completed''\<rparr>,
             s2\<lparr>step_status := ''failed'', error_message := Some (exn_msg e)\<rparr>, s3]
       \<and> run_context (results (fst (execute p inp False w))) = d2"
  using assms by (simp add: engine_defs try_step_status)

text \<open>The theorem at the steps \<open>A\<close>, \<open>B\<close>, \<open>C\<close>: two calls of \<open>execute\<close> are counted.\<close>

theorem execute_stops_at_failure_witness:
  "execute (three_steps ''A'' ''B'' ''C'') Map.empty False 0 =
     (fst (execute (three_steps ''A'' ''B'' ''C'') Map.empty False 0),
      Inl (Exn ''RuntimeError'' ''boom''), 2)
   \<and> status (fst (execute (three_steps ''A'' ''B'' ''C'') Map.empty False 0)) = ''failed''
   \<and> map fst (step_results (results (fst (execute (three_steps ''A'' ''B'' ''C'') Map.empty False 0))))
       = [''A'', ''B'']
   \<and> map step_status (steps (fst (execute (three_steps ''A'' ''B'' ''C'') Map.empty False 0)))
       = [''completed'', ''failed'', ''pending'']"
  using execute_stops_at_failure [of "three_steps ''A'' ''B'' ''C''"
      "returning_step ''A'' [''x'' \<mapsto> 1]" "raising_step ''B''" "echo_step ''C''"
      Map.empty 0 "NewDict [''x'' \<mapsto> 1]" Map.empty 1 "Exn ''RuntimeError'' ''boom''"
      "[''x'' \<mapsto> 1]" 2]
  by (simp add: example_defs)

text \<open>
  C3 as stated, for every pipeline of three steps, fails when steps 1 and 2 carry the same
  name: the failure of step 2 replaces the success of step 1 in \<open>step_results\<close>, which
  then holds one outcome.
\<close>

theorem execute_same_name_counterexample:
  "fst (try_step (returning_step ''A'' [''x'' \<mapsto> 1]) Map.empty 0) = Inr (NewDict [''x'' \<mapsto> 1])
   \<and> fst (try_step (raising_step ''A'') [''x'' \<mapsto> 1] 1) = Inl (Exn ''RuntimeError'' ''boom'')
   \<and> step_results (results (fst (execute (three_steps ''A'' ''A'' ''C'') Map.empty False 0))) =
       [(''A'', \<lparr>so_result = None, so_status = ''failed'', so_error = Some ''boom''\<rparr>)]
   \<and> length (step_results (results (fst (execute (three_steps ''A'' ''A'' ''C'') Map.empty False 0)))) \<noteq> 2"
  by (simp add: engine_defs example_defs)

text \<open>
  C4 (as amended). The same pipeline with \<open>continue_on_error\<close> True, the three names
  pairwise different, and step 3 succeeding on the context as step 2 left it: nothing is
  raised, \<open>step_results\<close> holds exactly three outcomes, success, failure, success, and the
  step objects are marked completed, failed, completed. The engine adds no key for the
  failed step and restores nothing: step 3 is run on the dict that was handed to step 2,
  as step 2 left it when it raised. That dict is the input with what step 1 wrote and
  returned, and what step 2 itself wrote into it before raising; if step 2 wrote nothing
  it is the context that step 1 left.
\<close>

theorem execute_continues_after_failure:
  assumes "steps p = [s1, s2, s3]"
    and "try_step s1 inp w = (Inr ret1, d1, w1)"
    and "try_step s2 (merge_result d1 ret1) w1 = (Inl e, d2, w2)"
    and "try_step s3 d2 w2 = (Inr ret3, d3, w3)"
    and "distinct [step_name s1, step_name s2, step_name s3]"
  shows "execute p inp True w =
           (fst (execute p inp True w), Inr (results (fst (execute p inp True w))), w3)
       \<and> step_results (results (fst (execute p inp True w))) =
            [(step_name s1, \<lparr>so_result = Some ret1, so_status = ''success'', so_error = None\<rparr>),
             (step_name s2, \<lparr>so_result = None, so_status = ''failed'', so_error = Some (exn_msg e)\<rparr>),
             (step_name s3, \<lparr>so_result = Some ret3, so_status = ''success'', so_error = None\<rparr>)]
       \<and> map step_status (steps (fst (execute p inp True w))) =
            [''completed'', ''failed'', ''completed'']
       \<and> run_context (results (fst (execute p inp True w))) = merge_result d3 ret3"
  using assms by (simp add: engine_defs try_step_status)

text \<open>
  The theorem at the steps \<open>A\<close>, \<open>B\<close>, \<open>C\<close>, the second raising without having written to
  the context and the third returning a copy of the context it is given: that context is
  the input with the key of step 1.
\<close>

theorem execute_continues_after_failure_witness:
  "step_results (results (fst (execute (three_steps ''A'' ''B'' ''C'') [''in'' \<mapsto> 7] True 0))) =
     [(''A'', \<lparr>so_result = Some (NewDict [''x'' \<mapsto> 1]), so_status = ''success'',
               so_error = None\<rparr>),
      (''B'', \<lparr>so_result = None, so_status = ''failed'', so_error = Some ''boom''\<rparr>),
      (''C'', \<lparr>so_result = Some (NewDict ([''in'' \<mapsto> 7] ++ [''x'' \<mapsto> 1])),
               so_status = ''success'', so_error = None\<rparr>)]
   \<and> map step_status (steps (fst (execute (three_steps ''A'' ''B'' ''C'') [''in'' \<mapsto> 7] True 0))) =
       [''completed'', ''failed'', ''completed'']"
  using execute_continues_after_failure [of "three_steps ''A'' ''B'' ''C''"
      "returning_step ''A'' [''x'' \<mapsto> 1]" "raising_step ''B''" "echo_step ''C''"
      "[''in'' \<mapsto> 7]" 0 "NewDict [''x'' \<mapsto> 1]" "[''in'' \<mapsto> 7]" 1
      "Exn ''RuntimeError'' ''boom''" "[''in'' \<mapsto> 7] ++ [''x'' \<mapsto> 1]" 2
      "NewDict ([''in'' \<mapsto> 7] ++ [''x'' \<mapsto> 1])" "[''in'' \<mapsto> 7] ++ [''x'' \<mapsto> 1]" 3]
  by (simp add: example_defs)

text \<open>
  C4 as stated fails in two ways. When steps 2 and 3 carry the same name, the success of
  step 3 replaces the failure of step 2, and \<open>step_results\<close> holds two outcomes, none of
  them failed. And when step 2 writes the key \<open>k\<close> into the dict it is given and then
  raises, the context that step 3 is given, of which it returns a copy, has the key \<open>k\<close>
  of the failed step.
\<close>

theorem execute_overwritten_outcome_counterexample:
  "fst (try_step (returning_step ''A'' [''x'' \<mapsto> 1]) Map.empty 0) = Inr (NewDict [''x'' \<mapsto> 1])
   \<and> fst (try_step (raising_step ''B'') [''x'' \<mapsto> 1] 1) = Inl (Exn ''RuntimeError'' ''boom'')
   \<and> fst (try_step (echo_step ''B'') [''x'' \<mapsto> 1] 2) = Inr (NewDict [''x'' \<mapsto> 1])
   \<and> map (\<lambda>item. (fst item, so_status (snd item)))
        (step_results (results (fst (execute (three_steps ''A'' ''B'' ''B'') Map.empty True 0)))) =
       [(''A'', ''success''), (''B'', ''success'')]
   \<and> fst (try_step (writing_step ''B'' ''k'' 9) [''x'' \<mapsto> 1] 1) =
       Inl (Exn ''RuntimeError'' ''boom'')
   \<and> step_results (results (fst (execute three_steps_writing Map.empty True 0))) =
       [(''A'', \<lparr>so_result = Some (NewDict [''x'' \<mapsto> 1]), so_status = ''success'',
                 so_error = None\<rparr>),
        (''B'', \<lparr>so_result = None, so_status = ''failed'', so_error = Some ''boom''\<rparr>),
        (''C'', \<lparr>so_result = Some (NewDict [''x'' \<mapsto> 1, ''k'' \<mapsto> 9]),
                 so_status = ''success'', so_error = None\<rparr>)]"
  by (simp add: engine_defs example_defs)

section \<open>Properties of the standardizers\<close>

subsection \<open>Training the Nyul model\<close>

lemma fold_update_length:
  "length (fold (\<lambda>i l. l[i := g i (length l)]) js l) = length l"
  by (induction js arbitrary: l) auto

lemma fold_update_nth:
  "distinct js \<Longrightarrow> j < length l \<Longrightarrow>
   fold (\<lambda>i l. l[i := g i (length l)]) js l ! j = (if j \<in> set js then g j (length l) else l ! j)"
proof (induction js arbitrary: l)
  case Nil
  then show ?case by simp
next
  case (Cons a js)
  then show ?case by (auto simp: nth_list_update)
qed

lemma length_map_to_scale: "length (map_to_scale sc sl) = length sl"
  unfolding map_to_scale_def Let_def
  by (simp only: fold_update_length
        [where g = "\<lambda>i n. fst sc + (snd sc - fst sc) * (real i / real (n - 1))"]
        length_list_update)

lemma map_to_scale_nth:
  assumes "2 \<le> length sl" and "i < length sl"
  shows "map_to_scale sc sl ! i =
           fst sc + (snd sc - fst sc) * (real i / real (length sl - 1))"
proof -
  let ?n = "length sl - 1"
  let ?sl2 = "(sl[0 := fst sc])[?n := snd sc]"
  have len: "length ?sl2 = length sl" by simp
  have eq: "map_to_scale sc sl ! i =
      (if i \<in> set [1..<?n] then fst sc + (snd sc - fst sc) * (real i / real ?n) else ?sl2 ! i)"
    unfolding map_to_scale_def Let_def
    using fold_update_nth [of "[1..<?n]" i ?sl2
        "\<lambda>i n. fst sc + (snd sc - fst sc) * (real i / real (n - 1))"] assms
    by simp
  consider "i = 0" | "i = ?n" "i \<noteq> 0" | "0 < i" "i < ?n"
    using assms by linarith
  then show ?thesis
  proof cases
    case 1
    then show ?thesis using eq assms by (simp add: nth_list_update)
  next
    case 2
    then show ?thesis using eq assms by (simp add: nth_list_update)
  next
    case 3
    then show ?thesis using eq by simp
  qed
qed

lemma np_percentile_length: "np_percentile xs qs = Inr ls \<Longrightarrow> length ls = length qs"
  by (auto simp: np_percentile_def split: if_splits)

lemma np_percentile_returns:
  "xs \<noteq> [] \<Longrightarrow> list_all (\<lambda>q. 0 \<le> q \<and> q \<le> 100) qs \<Longrightarrow>
   np_percentile xs qs = Inr (map (percentile1 (sort xs)) qs)"
  by (simp add: np_percentile_def)

lemma all_landmarks_rows:
  "all_landmarks lp images = Inr rows \<Longrightarrow>
   length rows = length images \<and> list_all (\<lambda>r. length r = length lp) rows"
proof (induction images arbitrary: rows)
  case Nil
  then show ?case by simp
next
  case (Cons img images)
  then show ?case
    by (auto split: sum.splits dest: np_percentile_length)
qed

lemma all_landmarks_returns:
  "list_all (\<lambda>img. filter (\<lambda>v. v > 0) (voxels img) \<noteq> []) images \<Longrightarrow>
   list_all (\<lambda>q. 0 \<le> q \<and> q \<le> 100) lp \<Longrightarrow>
   \<exists>rows. all_landmarks lp images = Inr rows"
  by (induction images) (auto simp: np_percentile_returns)

lemma length_mean_axis0:
  "rows \<noteq> [] \<Longrightarrow> list_all (\<lambda>r. length r = n) rows \<Longrightarrow> length (mean_axis0 rows) = n"
  by (cases rows) (auto simp: mean_axis0_def)

lemma Nyul_train_landmarks_if_returns:
  assumes "Nyul_train self images = Inr self'"
    and "2 \<le> length (landmarks_percentage self)"
  shows "\<exists>sl. standard_landmarks self' = Some sl
           \<and> length sl = length (landmarks_percentage self)
           \<and> sl ! 0 = fst (standard_scale self)
           \<and> sl ! (length sl - 1) = snd (standard_scale self)
           \<and> (\<forall>i. 0 < i \<and> i < length sl - 1 \<longrightarrow>
                 sl ! i = fst (standard_scale self) +
                   (snd (standard_scale self) - fst (standard_scale self)) * real i
                     / real (length sl - 1))"
proof -
  obtain rows where rows: "all_landmarks (landmarks_percentage self) images = Inr rows"
    using assms(1) by (auto simp: Nyul_train_def split: sum.splits)
  let ?sl = "map_to_scale (standard_scale self) (mean_axis0 rows)"
  have ne: "rows \<noteq> []" and sl: "standard_landmarks self' = Some ?sl"
    using assms(1) rows by (auto simp: Nyul_train_def Let_def split: if_splits)
  have len: "length (mean_axis0 rows) = length (landmarks_percentage self)"
    using all_landmarks_rows [OF rows] ne by (simp add: length_mean_axis0)
  have nth: "\<And>i. i < length (mean_axis0 rows) \<Longrightarrow>
      ?sl ! i = fst (standard_scale self) +
        (snd (standard_scale self) - fst (standard_scale self)) *
          (real i / real (length (mean_axis0 rows) - 1))"
    using map_to_scale_nth assms(2) len by simp
  have pos: "0 < length (mean_axis0 rows)"
    using assms(2) len by linarith
  have "?sl ! 0 = fst (standard_scale self)"
    using nth [OF pos] by simp
  moreover have "?sl ! (length ?sl - 1) = snd (standard_scale self)"
    using nth [of "length (mean_axis0 rows) - 1"] assms(2) len
    by (simp add: length_map_to_scale)
  moreover have "\<forall>i. 0 < i \<and> i < length ?sl - 1 \<longrightarrow>
      ?sl ! i = fst (standard_scale self) +
        (snd (standard_scale self) - fst (standard_scale self)) * real i / real (length ?sl - 1)"
  proof (intro allI impI)
    fix i
    assume "0 < i \<and> i < length ?sl - 1"
    then have "i < length (mean_axis0 rows)"
      by (auto simp: length_map_to_scale)
    from nth [OF this] show "?sl ! i = fst (standard_scale self) +
        (snd (standard_scale self) - fst (standard_scale self)) * real i / real (length ?sl - 1)"
      by (simp only: length_map_to_scale times_divide_eq_right)
  qed
  ultimately show ?thesis
    using sl len by (simp add: length_map_to_scale)
qed

lemma Nyul_train_returns:
  assumes "images \<noteq> []"
    and "list_all (\<lambda>img. filter (\<lambda>v. v > 0) (voxels img) \<noteq> []) images"
    and "list_all (\<lambda>q. 0 \<le> q \<and> q \<le> 100) (landmarks_percentage self)"
    and "landmarks_percentage self \<noteq> []"
  shows "\<exists>self'. Nyul_train self images = Inr self'"
proof -
  obtain rows where rows: "all_landmarks (landmarks_percentage self) images = Inr rows"
    using all_landmarks_returns assms by blast
  have ne: "rows \<noteq> []" using all_landmarks_rows [OF rows] assms(1) by auto
  have "length (mean_axis0 rows) = length (landmarks_percentage self)"
    using all_landmarks_rows [OF rows] ne by (simp add: length_mean_axis0)
  then have "mean_axis0 rows \<noteq> []" using assms(4) by auto
  then show ?thesis using rows ne by (simp add: Nyul_train_def Let_def)
qed

lemma all_landmarks_range:
  "all_landmarks lp images = Inr rows \<Longrightarrow> images \<noteq> [] \<Longrightarrow>
   list_all (\<lambda>q. 0 \<le> q \<and> q \<le> 100) lp"
  by (cases images) (auto simp: np_percentile_def split: sum.splits if_splits)

lemma Nyul_train_state:
  assumes "Nyul_train self0 images = Inr self"
  shows "trained self"
    and "landmarks_percentage self = landmarks_percentage self0"
    and "standard_scale self = standard_scale self0"
    and "\<exists>sl. standard_landmarks self = Some sl \<and> length sl = length (landmarks_percentage self0)"
    and "landmarks_percentage self0 \<noteq> []"
    and "list_all (\<lambda>q. 0 \<le> q \<and> q \<le> 100) (landmarks_percentage self0)"
proof -
  obtain rows where rows: "all_landmarks (landmarks_percentage self0) images = Inr rows"
    using assms by (auto simp: Nyul_train_def split: sum.splits)
  have ne: "rows \<noteq> []" and ne2: "mean_axis0 rows \<noteq> []"
    and self: "self = self0\<lparr>standard_landmarks :=
                 Some (map_to_scale (standard_scale self0) (mean_axis0 rows)),
               parameters := (parameters self0)
                 (''standard_landmarks'' \<mapsto>
                    PFloats (map_to_scale (standard_scale self0) (mean_axis0 rows)),
                  ''landmarks_percentage'' \<mapsto> PFloats (landmarks_percentage self0)),
               trained := True\<rparr>"
    using assms rows by (auto simp: Nyul_train_def Let_def split: if_splits)
  have len: "length (mean_axis0 rows) = length (landmarks_percentage self0)"
    using all_landmarks_rows [OF rows] ne by (simp add: length_mean_axis0)
  have ine: "images \<noteq> []" using all_landmarks_rows [OF rows] ne by auto
  show "trained self" "landmarks_percentage self = landmarks_percentage self0"
    "standard_scale self = standard_scale self0"
    by (simp_all add: self)
  show "\<exists>sl. standard_landmarks self = Some sl \<and> length sl = length (landmarks_percentage self0)"
    using len by (simp add: self length_map_to_scale)
  show "landmarks_percentage self0 \<noteq> []" using len ne2 by auto
  show "list_all (\<lambda>q. 0 \<le> q \<and> q \<le> 100) (landmarks_percentage self0)"
    using all_landmarks_range [OF rows ine] .
qed

text \<open>
  C5. \<open>NyulStandardizer.train\<close> on a non-empty list of images, each with a voxel above 0,
  with at least two landmark percentiles, all between 0 and 100: the call returns, the
  model is trained, and the stored standard landmarks are as many as the percentiles, the
  first equal to the lower bound of the scale, the last equal to the upper bound, and
  every one in between equal to \<open>lo + (hi - lo) * i / n\<close>, \<open>n\<close> being the last index. The
  averaged percentile intensities of the images do not appear in the result.
\<close>

theorem Nyul_train_standard_landmarks:
  assumes "images \<noteq> []"
    and "list_all (\<lambda>img. filter (\<lambda>v. v > 0) (voxels img) \<noteq> []) images"
    and "list_all (\<lambda>q. 0 \<le> q \<and> q \<le> 100) (landmarks_percentage self)"
    and "2 \<le> length (landmarks_percentage self)"
  shows "\<exists>self' sl. Nyul_train self images = Inr self' \<and> trained self'
           \<and> standard_landmarks self' = Some sl
           \<and> length sl = length (landmarks_percentage self)
           \<and> sl ! 0 = fst (standard_scale self)
           \<and> sl ! (length sl - 1) = snd (standard_scale self)
           \<and> (\<forall>i. 0 < i \<and> i < length sl - 1 \<longrightarrow>
                 sl ! i = fst (standard_scale self) +
                   (snd (standard_scale self) - fst (standard_scale self)) * real i
                     / real (length sl - 1))"
proof -
  have "landmarks_percentage self \<noteq> []" using assms(4) by auto
  then obtain self' where tr: "Nyul_train self images = Inr self'"
    using Nyul_train_returns [OF assms(1-3)] by blast
  show ?thesis
    using Nyul_train_landmarks_if_returns [OF tr assms(4)] Nyul_train_state(1) [OF tr] tr
    by blast
qed

text \<open>The theorem at four percentiles, the scale from 10 to 40 and two images.\<close>

theorem Nyul_train_standard_landmarks_witness:
  "\<exists>self' sl. Nyul_train (NyulStandardizer_init [0, 25, 50, 100] (10, 40)) [FloatArray [0, 4, 8], IntArray [1, 0]]
       = Inr self'
     \<and> standard_landmarks self' = Some sl \<and> length sl = 4
     \<and> sl ! 0 = 10 \<and> sl ! 3 = 40 \<and> sl ! 1 = 20 \<and> sl ! 2 = 30"
proof -
  let ?self = "NyulStandardizer_init [0, 25, 50, 100] (10, 40)"
  have h: "[FloatArray [0, 4, 8], IntArray [1, 0]] \<noteq> []"
    "list_all (\<lambda>img. filter (\<lambda>v. v > 0) (voxels img) \<noteq> [])
       [FloatArray [0, 4, 8], IntArray [1, 0]]"
    "list_all (\<lambda>q. 0 \<le> q \<and> q \<le> 100) (landmarks_percentage ?self)"
    "2 \<le> length (landmarks_percentage ?self)"
    by (simp_all add: NyulStandardizer_init_def voxels_def)
  from Nyul_train_standard_landmarks [OF h] obtain self' sl where
    tr: "Nyul_train ?self [FloatArray [0, 4, 8], IntArray [1, 0]] = Inr self'"
      "standard_landmarks self' = Some sl" "length sl = length (landmarks_percentage ?self)"
      "sl ! 0 = fst (standard_scale ?self)" "sl ! (length sl - 1) = snd (standard_scale ?self)"
    and mid: "\<And>i. 0 < i \<and> i < length sl - 1 \<Longrightarrow>
        sl ! i = fst (standard_scale ?self) +
          (snd (standard_scale ?self) - fst (standard_scale ?self)) * real i / real (length sl - 1)"
    by blast
  have len: "length sl = 4" using tr(3) by (simp add: NyulStandardizer_init_def)
  have "sl ! 1 = 20" "sl ! 2 = 30"
    using mid [of 1] mid [of 2] len by (simp_all add: NyulStandardizer_init_def)
  moreover have "sl ! 0 = 10" "sl ! 3 = 40"
    using tr(4,5) len by (simp_all add: NyulStandardizer_init_def)
  ultimately show ?thesis using tr(1,2) len by blast
qed

subsection \<open>Transforming with the Nyul model\<close>

lemma percentile1_mono:
  assumes "sorted a" and "a \<noteq> []" and "0 \<le> q1" and "q1 \<le> q2" and "q2 \<le> 100"
  shows "percentile1 a q1 \<le> percentile1 a q2"
proof -
  define m where "m = length a - 1"
  define h1 where "h1 = real m * (q1 / 100)"
  define h2 where "h2 = real m * (q2 / 100)"
  define l1 where "l1 = nat \<lfloor>h1\<rfloor>"
  define l2 where "l2 = nat \<lfloor>h2\<rfloor>"
  define u1 where "u1 = min (l1 + 1) m"
  define u2 where "u2 = min (l2 + 1) m"
  have len: "length a = m + 1" using assms(2) by (cases a) (auto simp: m_def)
  have h1_0: "0 \<le> h1" using assms by (simp add: h1_def)
  have h12: "h1 \<le> h2" using assms by (simp add: h1_def h2_def mult_left_mono divide_right_mono)
  have h2_0: "0 \<le> h2" using h1_0 h12 by simp
  have "q2 / 100 \<le> 1" using assms by simp
  then have "real m * (q2 / 100) \<le> real m * 1" by (intro mult_left_mono) auto
  then have h2_m: "h2 \<le> real m" by (simp add: h2_def)
  have fl1: "real l1 \<le> h1" "h1 < real l1 + 1"
    using h1_0 by (simp_all add: l1_def)
  have fl2: "real l2 \<le> h2" "h2 < real l2 + 1"
    using h2_0 by (simp_all add: l2_def)
  have l12: "l1 \<le> l2" unfolding l1_def l2_def using h12 by (simp add: floor_mono nat_mono)
  have l2m: "l2 \<le> m" using fl2(1) h2_m by linarith
  have l1m: "l1 \<le> m" using l12 l2m by simp
  have u1: "l1 \<le> u1" "u1 \<le> m" "u1 \<le> l1 + 1" using l1m by (simp_all add: u1_def)
  have u2: "l2 \<le> u2" "u2 \<le> m" using l2m by (simp_all add: u2_def)
  have mono: "\<And>i j. i \<le> j \<Longrightarrow> j \<le> m \<Longrightarrow> a ! i \<le> a ! j"
    using assms(1) len by (simp add: sorted_iff_nth_mono)
  have p1: "percentile1 a q1 = a ! l1 + (a ! u1 - a ! l1) * (h1 - real l1)"
    by (simp add: percentile1_def Let_def m_def h1_def l1_def u1_def)
  have p2: "percentile1 a q2 = a ! l2 + (a ! u2 - a ! l2) * (h2 - real l2)"
    by (simp add: percentile1_def Let_def m_def h2_def l2_def u2_def)
  have d1: "0 \<le> a ! u1 - a ! l1" using mono [OF u1(1) u1(2)] by simp
  have d2: "0 \<le> a ! u2 - a ! l2" using mono [OF u2(1) u2(2)] by simp
  show ?thesis
  proof (cases "l1 = l2")
    case True
    then have "u1 = u2" by (simp add: u1_def u2_def)
    then have "percentile1 a q2 - percentile1 a q1 = (a ! u1 - a ! l1) * (h2 - h1)"
      using True by (simp add: p1 p2 algebra_simps)
    moreover have "0 \<le> (a ! u1 - a ! l1) * (h2 - h1)"
      using d1 h12 by simp
    ultimately show ?thesis by linarith
  next
    case False
    then have lt: "l1 + 1 \<le> l2" using l12 by simp
    have "(a ! u1 - a ! l1) * (h1 - real l1) \<le> (a ! u1 - a ! l1) * 1"
      using d1 fl1 by (intro mult_left_mono) auto
    then have a1: "percentile1 a q1 \<le> a ! u1" by (simp add: p1)
    have a2: "a ! u1 \<le> a ! l2" using u1(3) lt l2m by (intro mono) auto
    have "0 \<le> (a ! u2 - a ! l2) * (h2 - real l2)"
      using d2 fl2 by simp
    then have a3: "a ! l2 \<le> percentile1 a q2" by (simp add: p2)
    show ?thesis using a1 a2 a3 by linarith
  qed
qed

lemma np_percentile_sorted:
  assumes "np_percentile xs qs = Inr lms" and "sorted qs"
  shows "sorted lms"
proof -
  have ne: "xs \<noteq> []" and rng: "list_all (\<lambda>q. 0 \<le> q \<and> q \<le> 100) qs"
    and lms: "lms = map (percentile1 (sort xs)) qs"
    using assms(1) by (auto simp: np_percentile_def split: if_splits)
  have sne: "sort xs \<noteq> []"
    using ne by (metis length_sort length_0_conv)
  have "sorted (map (percentile1 (sort xs)) qs)"
    unfolding sorted_map
  proof (rule sorted_wrt_mono_rel [OF _ assms(2)])
    fix x y
    assume "x \<in> set qs" "y \<in> set qs" "x \<le> y"
    then show "percentile1 (sort xs) x \<le> percentile1 (sort xs) y"
      using rng sne by (intro percentile1_mono) (auto simp: list_all_iff)
  qed
  then show ?thesis by (simp add: lms)
qed

lemma py_index_nat:
  "i < length l \<Longrightarrow> py_index (Some l) (int i) = Inr (l ! i)"
  by (simp add: py_index_def Let_def)

lemma py_index_Suc:
  "i + 1 < length l \<Longrightarrow> py_index (Some l) (int i + 1) = Inr (l ! (i + 1))"
  using py_index_nat [of "i + 1" l] by (simp add: add.commute)

lemma py_index_last:
  "l \<noteq> [] \<Longrightarrow> py_index (Some l) (- 1) = Inr (last l)"
  by (cases l rule: rev_cases) (auto simp: py_index_def Let_def nat_diff_distrib nth_append)

lemma intervals_disjoint:
  assumes "sorted (lms :: real list)" and "i + 1 < length lms" and "j + 1 < length lms"
    and "i \<noteq> j" and "lms ! i \<le> v" and "v < lms ! (i + 1)"
  shows "\<not> (lms ! j \<le> v \<and> v < lms ! (j + 1))"
proof (cases "j < i")
  case True
  then have "lms ! (j + 1) \<le> lms ! i"
    using assms(1,2) by (simp add: sorted_iff_nth_mono)
  then show ?thesis using assms(5) by linarith
next
  case False
  then have "lms ! (i + 1) \<le> lms ! j"
    using assms(1,3,4) by (simp add: sorted_iff_nth_mono)
  then show ?thesis using assms(6) by linarith
qed

lemma map_intervals_voxels:
  assumes "sorted lms" and "length sl = length lms" and "length std = length img"
    and "distinct js" and "\<forall>j \<in> set js. j + 1 < length lms"
  shows "\<exists>out. map_intervals (Some sl) lms img js std = Inr out \<and> length out = length img
           \<and> (\<forall>k < length img. \<forall>j \<in> set js.
                 lms ! j \<le> img ! k \<and> img ! k < lms ! (j + 1) \<longrightarrow>
                 out ! k = sl ! j + (sl ! (j + 1) - sl ! j) / (lms ! (j + 1) - lms ! j)
                                      * (img ! k - lms ! j))
           \<and> (\<forall>k < length img.
                 (\<forall>j \<in> set js. \<not> (lms ! j \<le> img ! k \<and> img ! k < lms ! (j + 1))) \<longrightarrow>
                 out ! k = std ! k)"
  using assms(3-5)
proof (induction js arbitrary: std)
  case Nil
  then show ?case by simp
next
  case (Cons i rest)
  let ?f = "\<lambda>v. sl ! i + (sl ! (i + 1) - sl ! i) / (lms ! (i + 1) - lms ! i) * (v - lms ! i)"
  define std' where "std' =
    (if lms ! (i + 1) > lms ! i
     then map (\<lambda>(v, s). if lms ! i \<le> v \<and> v < lms ! (i + 1) then ?f v else s) (zip img std)
     else std)"
  have i_ok: "i + 1 < length lms" using Cons.prems by simp
  have len': "length std' = length img" using Cons.prems by (simp add: std'_def)
  have step: "map_intervals (Some sl) lms img (i # rest) std =
              map_intervals (Some sl) lms img rest std'"
    using i_ok assms(2) py_index_nat [of i sl] py_index_Suc [of i sl]
    by (simp add: std'_def Let_def)
  have std'_in: "\<And>k. k < length img \<Longrightarrow> lms ! i \<le> img ! k \<and> img ! k < lms ! (i + 1) \<Longrightarrow>
      std' ! k = ?f (img ! k)"
    using Cons.prems(1) by (auto simp: std'_def)
  have std'_out: "\<And>k. k < length img \<Longrightarrow> \<not> (lms ! i \<le> img ! k \<and> img ! k < lms ! (i + 1)) \<Longrightarrow>
      std' ! k = std ! k"
    using Cons.prems(1) by (auto simp: std'_def)
  from Cons.IH [OF len'] Cons.prems obtain out where
    out: "map_intervals (Some sl) lms img rest std' = Inr out" "length out = length img"
    and hit: "\<And>k j. k < length img \<Longrightarrow> j \<in> set rest \<Longrightarrow>
                lms ! j \<le> img ! k \<and> img ! k < lms ! (j + 1) \<Longrightarrow>
                out ! k = sl ! j + (sl ! (j + 1) - sl ! j) / (lms ! (j + 1) - lms ! j)
                                     * (img ! k - lms ! j)"
    and miss: "\<And>k. k < length img \<Longrightarrow>
                (\<forall>j \<in> set rest. \<not> (lms ! j \<le> img ! k \<and> img ! k < lms ! (j + 1))) \<Longrightarrow>
                out ! k = std' ! k"
    by auto
  have "\<forall>k < length img. \<forall>j \<in> set (i # rest).
          lms ! j \<le> img ! k \<and> img ! k < lms ! (j + 1) \<longrightarrow>
          out ! k = sl ! j + (sl ! (j + 1) - sl ! j) / (lms ! (j + 1) - lms ! j)
                               * (img ! k - lms ! j)"
  proof (intro allI impI ballI)
    fix k j
    assume k: "k < length img" and j: "j \<in> set (i # rest)"
      and inj: "lms ! j \<le> img ! k \<and> img ! k < lms ! (j + 1)"
    show "out ! k = sl ! j + (sl ! (j + 1) - sl ! j) / (lms ! (j + 1) - lms ! j)
                               * (img ! k - lms ! j)"
    proof (cases "j \<in> set rest")
      case True
      then show ?thesis using hit [OF k True inj] by simp
    next
      case False
      then have ji: "j = i" using j by simp
      have "\<forall>j' \<in> set rest. \<not> (lms ! j' \<le> img ! k \<and> img ! k < lms ! (j' + 1))"
      proof
        fix j'
        assume j': "j' \<in> set rest"
        then have "j' + 1 < length lms" "i \<noteq> j'" using Cons.prems by auto
        then show "\<not> (lms ! j' \<le> img ! k \<and> img ! k < lms ! (j' + 1))"
          using intervals_disjoint [OF assms(1) i_ok, of j' "img ! k"] inj ji by simp
      qed
      then have "out ! k = std' ! k" using miss [OF k] by simp
      moreover have "std' ! k = ?f (img ! k)" using std'_in [OF k] inj ji by simp
      ultimately show ?thesis using ji by simp
    qed
  qed
  moreover have "\<forall>k < length img.
          (\<forall>j \<in> set (i # rest). \<not> (lms ! j \<le> img ! k \<and> img ! k < lms ! (j + 1))) \<longrightarrow>
          out ! k = std ! k"
  proof (intro allI impI)
    fix k
    assume k: "k < length img"
      and no: "\<forall>j \<in> set (i # rest). \<not> (lms ! j \<le> img ! k \<and> img ! k < lms ! (j + 1))"
    then have "out ! k = std' ! k" using miss [OF k] by simp
    moreover have "\<not> (lms ! i \<le> img ! k \<and> img ! k < lms ! (i + 1))" using no by simp
    ultimately show "out ! k = std ! k" using std'_out [OF k] by simp
  qed
  ultimately show ?case using out step by simp
qed

lemma interval_exists:
  "(lms :: real list) ! 0 \<le> v \<Longrightarrow> v < lms ! n \<Longrightarrow> \<exists>i < n. lms ! i \<le> v \<and> v < lms ! (i + 1)"
proof (induction n)
  case 0
  then show ?case by linarith
next
  case (Suc n)
  show ?case
  proof (cases "v < lms ! n")
    case True
    then obtain i where "i < n" "lms ! i \<le> v \<and> v < lms ! (i + 1)"
      using Suc by blast
    then show ?thesis by (intro exI [of _ i]) simp
  next
    case False
    then show ?thesis using Suc.prems by (intro exI [of _ n]) simp
  qed
qed

lemma Nyul_standardized_voxels_general:
  assumes "trained self" and "standard_landmarks self = Some sl"
    and "length sl = length (landmarks_percentage self)"
    and "sorted (landmarks_percentage self)"
    and "list_all (\<lambda>q. 0 \<le> q \<and> q \<le> 100) (landmarks_percentage self)"
    and "landmarks_percentage self \<noteq> []"
    and "filter (\<lambda>v. v > 0) img \<noteq> []"
  shows "\<exists>lms out.
           np_percentile (filter (\<lambda>v. v > 0) img) (landmarks_percentage self) = Inr lms
         \<and> Nyul_standardized self img = Inr out \<and> length out = length img
         \<and> (\<forall>k < length img.
              (img ! k = 0 \<longrightarrow> out ! k = 0)
            \<and> (img ! k \<noteq> 0 \<and> last lms \<le> img ! k \<longrightarrow> out ! k = last sl)
            \<and> (\<forall>i. i + 1 < length lms \<and> img ! k \<noteq> 0
                     \<and> lms ! i \<le> img ! k \<and> img ! k < lms ! (i + 1) \<longrightarrow>
                   out ! k = sl ! i + (sl ! (i + 1) - sl ! i) / (lms ! (i + 1) - lms ! i)
                                        * (img ! k - lms ! i))
            \<and> (img ! k < lms ! 0 \<longrightarrow> out ! k = 0)
            \<and> (lms ! 0 \<le> img ! k \<and> img ! k < last lms \<longrightarrow>
                 (\<exists>i. i + 1 < length lms \<and> lms ! i \<le> img ! k \<and> img ! k < lms ! (i + 1))))"
proof -
  let ?lp = "landmarks_percentage self"
  define lms where "lms = map (percentile1 (sort (filter (\<lambda>v. v > 0) img))) ?lp"
  define n where "n = length ?lp - 1"
  have perc: "np_percentile (filter (\<lambda>v. v > 0) img) ?lp = Inr lms"
    using assms(5,7) by (simp add: np_percentile_returns lms_def)
  have sorted: "sorted lms" using np_percentile_sorted [OF perc assms(4)] .
  have len: "length lms = n + 1" using assms(6) by (cases ?lp) (auto simp: lms_def n_def)
  have lsl: "length sl = length lms" using assms(3) by (simp add: lms_def)
  have lastl: "last lms = lms ! n"
    using len last_conv_nth [of lms] by (cases lms) auto
  have le_last: "\<And>j. j \<le> n \<Longrightarrow> lms ! j \<le> lms ! n"
    using sorted len by (simp add: sorted_iff_nth_mono)
  have ge_first: "\<And>j. j \<le> n \<Longrightarrow> lms ! 0 \<le> lms ! j"
    using sorted len by (simp add: sorted_iff_nth_mono)
  from map_intervals_voxels [OF sorted lsl, of "replicate (length img) 0" img "[0..<n]"] len
  obtain std1 where
    std1: "map_intervals (Some sl) lms img [0..<n] (replicate (length img) 0) = Inr std1"
      "length std1 = length img"
    and hit: "\<And>k j. k < length img \<Longrightarrow> j < n \<Longrightarrow>
                lms ! j \<le> img ! k \<and> img ! k < lms ! (j + 1) \<Longrightarrow>
                std1 ! k = sl ! j + (sl ! (j + 1) - sl ! j) / (lms ! (j + 1) - lms ! j)
                                     * (img ! k - lms ! j)"
    and miss: "\<And>k. k < length img \<Longrightarrow>
                (\<forall>j < n. \<not> (lms ! j \<le> img ! k \<and> img ! k < lms ! (j + 1))) \<Longrightarrow>
                std1 ! k = 0"
    by auto
  define out where "out =
    map (\<lambda>(v, s). if v = 0 then 0 else s)
      (zip img (map (\<lambda>(v, s). if v \<ge> last lms then last sl else s) (zip img std1)))"
  have sl_ne: "sl \<noteq> []" using lsl len by auto
  have lms_ne: "lms \<noteq> []" using len by auto
  have tr: "Nyul_standardized self img = Inr out"
    using assms(1,2) perc std1(1) py_index_last [OF sl_ne] lms_ne
    by (simp add: Nyul_standardized_def Let_def out_def n_def)
  have lout: "length out = length img" using std1(2) by (simp add: out_def)
  have out_nth: "\<And>k. k < length img \<Longrightarrow>
      out ! k = (if img ! k = 0 then 0 else if last lms \<le> img ! k then last sl else std1 ! k)"
    using std1(2) by (simp add: out_def)
  have "\<forall>k < length img.
              (img ! k = 0 \<longrightarrow> out ! k = 0)
            \<and> (img ! k \<noteq> 0 \<and> last lms \<le> img ! k \<longrightarrow> out ! k = last sl)
            \<and> (\<forall>i. i + 1 < length lms \<and> img ! k \<noteq> 0
                     \<and> lms ! i \<le> img ! k \<and> img ! k < lms ! (i + 1) \<longrightarrow>
                   out ! k = sl ! i + (sl ! (i + 1) - sl ! i) / (lms ! (i + 1) - lms ! i)
                                        * (img ! k - lms ! i))
            \<and> (img ! k < lms ! 0 \<longrightarrow> out ! k = 0)
            \<and> (lms ! 0 \<le> img ! k \<and> img ! k < last lms \<longrightarrow>
                 (\<exists>i. i + 1 < length lms \<and> lms ! i \<le> img ! k \<and> img ! k < lms ! (i + 1)))"
  proof (intro allI impI conjI)
    fix k assume k: "k < length img" and "img ! k = 0"
    then show "out ! k = 0" using out_nth by simp
  next
    fix k assume k: "k < length img" and "img ! k \<noteq> 0 \<and> last lms \<le> img ! k"
    then show "out ! k = last sl" using out_nth by simp
  next
    fix k i
    assume k: "k < length img"
      and i: "i + 1 < length lms \<and> img ! k \<noteq> 0 \<and> lms ! i \<le> img ! k \<and> img ! k < lms ! (i + 1)"
    then have "i < n" using len by simp
    then have "lms ! (i + 1) \<le> lms ! n" using le_last [of "i + 1"] by simp
    then have "\<not> last lms \<le> img ! k" using i lastl by linarith
    then have "out ! k = std1 ! k" using out_nth [OF k] i by simp
    then show "out ! k = sl ! i + (sl ! (i + 1) - sl ! i) / (lms ! (i + 1) - lms ! i)
                                        * (img ! k - lms ! i)"
      using hit [OF k \<open>i < n\<close>] i by simp
  next
    fix k assume k: "k < length img" and lt: "img ! k < lms ! 0"
    have "\<forall>j < n. \<not> (lms ! j \<le> img ! k \<and> img ! k < lms ! (j + 1))"
    proof (intro allI impI)
      fix j assume "j < n"
      then have "lms ! 0 \<le> lms ! j" using ge_first [of j] by simp
      then show "\<not> (lms ! j \<le> img ! k \<and> img ! k < lms ! (j + 1))" using lt by linarith
    qed
    then have "std1 ! k = 0" using miss [OF k] by simp
    moreover have "\<not> last lms \<le> img ! k" using lt ge_first [of n] lastl by simp
    ultimately show "out ! k = 0" using out_nth [OF k] by simp
  next
    fix k assume k: "k < length img" and "lms ! 0 \<le> img ! k \<and> img ! k < last lms"
    then obtain i where "i < n" "lms ! i \<le> img ! k \<and> img ! k < lms ! (i + 1)"
      using interval_exists [of lms "img ! k" n] lastl by auto
    then show "\<exists>i. i + 1 < length lms \<and> lms ! i \<le> img ! k \<and> img ! k < lms ! (i + 1)"
      using len by (intro exI [of _ i]) simp
  qed
  then show ?thesis using perc tr lout by blast
qed

lemmas nyul_eval = Nyul_train_def NyulStandardizer_init_def default_landmarks_percentage_def
  default_standard_scale_def np_percentile_def percentile1_def mean_axis0_def map_to_scale_def
  Let_def Nyul_standardized_def Nyul_transform_def py_index_def voxels_def stored_like_def

lemma trained_example_eq:
  "trained trained_example"
  "standard_landmarks trained_example = Some [0, 10, 20, 30, 40, 50, 60, 70, 80, 90, 100]"
  "landmarks_percentage trained_example = [0, 10, 20, 30, 40, 50, 60, 70, 80, 90, 100]"
  by (simp_all add: trained_example_def nyul_eval)

text \<open>
  C6 (as amended). A model that \<open>train\<close> returned, its percentiles in increasing order, and
  an image of a floating-point type with a voxel above 0: \<open>transform\<close> returns an image
  of the same type and size in which a voxel of value 0 is 0; a voxel at or above the top
  source landmark has the top standard value; a voxel in a source interval
  \<open>[lower, upper)\<close> is mapped by the linear map of that interval onto the standard
  interval; a voxel below the lowest source landmark is 0; and every voxel from the lowest
  source landmark up to the top one lies in such a non-empty interval. An interval with
  \<open>upper = lower\<close> selects no voxel and assigns nothing: a voxel whose value is that of
  coinciding landmarks is mapped by the interval that starts at the last of them, or to
  the top value; it is not left at 0.
\<close>

theorem Nyul_transform_voxels:
  assumes "Nyul_train self0 images = Inr self"
    and "sorted (landmarks_percentage self0)"
    and "filter (\<lambda>v. v > 0) vs \<noteq> []"
  shows "\<exists>sl lms out.
           standard_landmarks self = Some sl
         \<and> np_percentile (filter (\<lambda>v. v > 0) vs) (landmarks_percentage self) = Inr lms
         \<and> length sl = length lms
         \<and> Nyul_transform self (FloatArray vs) = Inr (FloatArray out)
         \<and> length out = length vs
         \<and> (\<forall>k < length vs.
              (vs ! k = 0 \<longrightarrow> out ! k = 0)
            \<and> (vs ! k \<noteq> 0 \<and> last lms \<le> vs ! k \<longrightarrow> out ! k = last sl)
            \<and> (\<forall>i. i + 1 < length lms \<and> vs ! k \<noteq> 0
                     \<and> lms ! i \<le> vs ! k \<and> vs ! k < lms ! (i + 1) \<longrightarrow>
                   out ! k = sl ! i + (sl ! (i + 1) - sl ! i) / (lms ! (i + 1) - lms ! i)
                                        * (vs ! k - lms ! i))
            \<and> (vs ! k < lms ! 0 \<longrightarrow> out ! k = 0)
            \<and> (lms ! 0 \<le> vs ! k \<and> vs ! k < last lms \<longrightarrow>
                 (\<exists>i. i + 1 < length lms \<and> lms ! i \<le> vs ! k \<and> vs ! k < lms ! (i + 1))))"
proof -
  note st = Nyul_train_state [OF assms(1)]
  obtain sl where sl: "standard_landmarks self = Some sl"
      "length sl = length (landmarks_percentage self)"
    using st(2,4) by auto
  have h: "sorted (landmarks_percentage self)"
    "list_all (\<lambda>q. 0 \<le> q \<and> q \<le> 100) (landmarks_percentage self)"
    "landmarks_percentage self \<noteq> []"
    using st assms(2) by simp_all
  from Nyul_standardized_voxels_general [OF st(1) sl h assms(3)]
  obtain lms out where
    r: "np_percentile (filter (\<lambda>v. v > 0) vs) (landmarks_percentage self) = Inr lms"
       "Nyul_standardized self vs = Inr out" "length out = length vs"
       "\<forall>k < length vs.
              (vs ! k = 0 \<longrightarrow> out ! k = 0)
            \<and> (vs ! k \<noteq> 0 \<and> last lms \<le> vs ! k \<longrightarrow> out ! k = last sl)
            \<and> (\<forall>i. i + 1 < length lms \<and> vs ! k \<noteq> 0
                     \<and> lms ! i \<le> vs ! k \<and> vs ! k < lms ! (i + 1) \<longrightarrow>
                   out ! k = sl ! i + (sl ! (i + 1) - sl ! i) / (lms ! (i + 1) - lms ! i)
                                        * (vs ! k - lms ! i))
            \<and> (vs ! k < lms ! 0 \<longrightarrow> out ! k = 0)
            \<and> (lms ! 0 \<le> vs ! k \<and> vs ! k < last lms \<longrightarrow>
                 (\<exists>i. i + 1 < length lms \<and> lms ! i \<le> vs ! k \<and> vs ! k < lms ! (i + 1)))"
    by blast
  have "length sl = length lms" using sl(2) np_percentile_length [OF r(1)] by simp
  moreover have "Nyul_transform self (FloatArray vs) = Inr (FloatArray out)"
    using r(2) by (simp add: Nyul_transform_def voxels_def stored_like_def)
  ultimately show ?thesis using sl(1) r by blast
qed

text \<open>
  The theorem at the example model and an image with a background voxel and the top
  value 7.
\<close>

theorem Nyul_transform_voxels_witness:
  "\<exists>out. Nyul_transform trained_example (FloatArray [5, 5, 5, 7, 0]) = Inr (FloatArray out)
     \<and> length out = 5 \<and> out ! 4 = 0 \<and> out ! 3 = 100"
proof -
  let ?self0 = "NyulStandardizer_init default_landmarks_percentage default_standard_scale"
  have h: "Nyul_train ?self0 [FloatArray [1, 2, 3]] = Inr trained_example"
    "sorted (landmarks_percentage ?self0)"
    "filter (\<lambda>v. v > 0) [5, 5, 5, 7, 0 :: real] \<noteq> []"
    by (simp_all add: trained_example_def nyul_eval)
  from Nyul_transform_voxels [OF h] obtain sl lms out where
    sl: "standard_landmarks trained_example = Some sl"
    and lms: "np_percentile (filter (\<lambda>v. v > 0) [5, 5, 5, 7, 0])
                (landmarks_percentage trained_example) = Inr lms"
    and out: "Nyul_transform trained_example (FloatArray [5, 5, 5, 7, 0]) = Inr (FloatArray out)"
      "length out = length [5, 5, 5, 7, 0 :: real]"
    and vox: "\<And>k. k < length [5, 5, 5, 7, 0 :: real] \<Longrightarrow>
       ([5, 5, 5, 7, 0] ! k = (0::real) \<longrightarrow> out ! k = 0)
       \<and> ([5, 5, 5, 7, 0] ! k \<noteq> (0::real) \<and> last lms \<le> [5, 5, 5, 7, 0] ! k \<longrightarrow>
            out ! k = last sl)"
    by blast
  have "last lms = 7"
    using lms by (auto simp: trained_example_eq np_percentile_def percentile1_def Let_def)
  moreover have "last sl = 100" using sl by (auto simp: trained_example_eq)
  ultimately show ?thesis using out vox [of 4] vox [of 3] by simp
qed

text \<open>
  C6 as stated fails in its third part. For the image with the voxels 5, 5, 5 and 7 the
  source landmarks at the percentiles 0 to 60 are all 5, so the voxels of value 5 lie in
  intervals with \<open>upper = lower\<close>; they are mapped to 60, by the interval from the seventh
  landmark to the eighth, and not left at 0.
\<close>

theorem Nyul_degenerate_interval_counterexample:
  "np_percentile (filter (\<lambda>v. v > 0) [5, 5, 5, 7]) (landmarks_percentage trained_example) =
     Inr [5, 5, 5, 5, 5, 5, 5, 26 / 5, 29 / 5, 32 / 5, 7]
   \<and> Nyul_transform trained_example (FloatArray [5, 5, 5, 7]) =
       Inr (FloatArray [60, 60, 60, 100])"
  by (simp add: trained_example_def nyul_eval)

subsection \<open>The Z-score model and the parameter file\<close>

lemmas zscore_eval = ZScoreStandardizer_init_def ZScore_standardized_def ZScore_transform_def
  ZScore_train_def statistics_def np_median_def np_mean_def np_std_def Let_def voxels_def
  stored_like_def trunc_to_int_def

text \<open>
  The values that \<open>ZScoreStandardizer.transform\<close> computes: on a model that is not trained,
  a voxel above 0 becomes \<open>(value - center) / (scale + 1e-8)\<close> and every other voxel 0,
  center and scale being the statistics of the voxels above 0 of that image; on a trained
  model with stored statistics the same with the stored center and scale. The statistics
  are the mean and the standard deviation, or under the robust flag the median and 1.4826
  times the median of the absolute deviations from it. On an image of a floating-point
  type these values are the output.
\<close>

lemma ZScore_standardized_voxels:
  "(\<not> trained self \<longrightarrow>
      ZScore_standardized self vs =
        Inr (map (\<lambda>v. if v > 0
                        then (v - fst (statistics (use_robust_statistics self)
                                         (filter (\<lambda>v. v > 0) vs)))
                             / (snd (statistics (use_robust_statistics self)
                                         (filter (\<lambda>v. v > 0) vs)) + 1 / 10 ^ 8)
                        else 0) vs))
   \<and> (trained self \<and> global_mean self = Some center \<and> global_std self = Some scale \<longrightarrow>
      ZScore_standardized self vs =
        Inr (map (\<lambda>v. if v > 0 then (v - center) / (scale + 1 / 10 ^ 8) else 0) vs))
   \<and> statistics False vals = (np_mean vals, np_std vals)
   \<and> statistics True vals =
        (np_median vals, np_median (map (\<lambda>x. \<bar>x - np_median vals\<bar>) vals) * (14826 / 10000))"
  by (simp add: ZScore_standardized_def statistics_def Let_def split: prod.splits)

lemma ZScore_transform_FloatArray:
  "ZScore_standardized self vs = Inr out \<Longrightarrow>
   ZScore_transform self (FloatArray vs) = Inr (FloatArray out)"
  by (simp add: ZScore_transform_def voxels_def stored_like_def)

lemma ZScore_transform_IntArray:
  "ZScore_standardized self (map real_of_int vs) = Inr out \<Longrightarrow>
   ZScore_transform self (IntArray vs) = Inr (IntArray (map trunc_to_int out))"
  by (simp add: ZScore_transform_def voxels_def stored_like_def)

text \<open>
  C7 fails on the code for an image of an integer type. \<open>np.zeros_like\<close> gives the output
  array the dtype of the input, and the assignment of the z-scores to it cuts off their
  fractions. For the voxels 0, 1, 2 and 4 the untrained robust model computes the
  z-scores \<open>-1 / 1.4826\<close>, 0 and \<open>2 / 1.4826\<close> of the three voxels above 0; the image of a
  floating-point type is transformed to these, the image of an integer type to 0, 0
  and 1. The trained example does the same.
\<close>

theorem ZScore_transform_truncates:
  "ZScore_transform (ZScoreStandardizer_init True) (FloatArray [0, 1, 2, 4]) =
     Inr (FloatArray [0, - 1 / (14826 / 10000 + 1 / 10 ^ 8), 0,
                      2 / (14826 / 10000 + 1 / 10 ^ 8)])
   \<and> ZScore_transform (ZScoreStandardizer_init True) (IntArray [0, 1, 2, 4]) =
     Inr (IntArray [0, 0, 0, 1])
   \<and> ZScore_transform zscore_example (IntArray [0, 1, 2, 4]) = Inr (IntArray [0, 0, 0, 1])"
  by (simp add: zscore_example_def zscore_eval)

text \<open>
  C1 fails on the code. \<open>load_parameters\<close> sets \<open>parameters\<close> and \<open>trained\<close> and nothing
  else: the attributes that \<open>transform\<close> reads, \<open>standard_landmarks\<close> of the Nyul model
  and \<open>global_mean\<close> and \<open>global_std\<close> of the Z-score model, stay \<open>None\<close> on the fresh
  object. The trained examples transform an image; the models reloaded from the files
  they saved raise a \<open>TypeError\<close> on the same image.
\<close>

theorem load_parameters_loses_model:
  "Nyul_transform trained_example (FloatArray [1, 2, 3]) = Inr (FloatArray [0, 50, 100])
   \<and> load_parameters
        (NyulStandardizer_init default_landmarks_percentage default_standard_scale)
        ''nyul_parameters.json''
        (save_parameters trained_example ''nyul_parameters.json'' Map.empty) =
       Inr ((NyulStandardizer_init default_landmarks_percentage default_standard_scale)
              \<lparr>parameters := parameters trained_example, trained := True\<rparr>)
   \<and> Nyul_transform
        ((NyulStandardizer_init default_landmarks_percentage default_standard_scale)
           \<lparr>parameters := parameters trained_example, trained := True\<rparr>)
        (FloatArray [1, 2, 3]) =
       Inl (Exn ''TypeError'' ''NoneType object is not subscriptable'')
   \<and> ZScore_transform zscore_example (FloatArray [0, 1, 2, 4]) =
       Inr (FloatArray [0, - 1 / (14826 / 10000 + 1 / 10 ^ 8), 0,
                        2 / (14826 / 10000 + 1 / 10 ^ 8)])
   \<and> load_parameters (ZScoreStandardizer_init True) ''zscore.json''
        (save_parameters zscore_example ''zscore.json'' Map.empty) =
       Inr ((ZScoreStandardizer_init True)
              \<lparr>parameters := parameters zscore_example, trained := True\<rparr>)
   \<and> ZScore_transform
        ((ZScoreStandardizer_init True)
           \<lparr>parameters := parameters zscore_example, trained := True\<rparr>)
        (FloatArray [0, 1, 2, 4]) =
       Inl (Exn ''TypeError'' ''unsupported operand type(s): float and NoneType'')"
  by (simp add: trained_example_def zscore_example_def nyul_eval zscore_eval
        load_parameters_def save_parameters_def)

section \<open>Properties of the batch steps\<close>

subsection \<open>Discovery\<close>












subsection \<open>Training the shared standardizer\<close>

lemma load_images_map_filter:
  "load_images w ps = List.map_filter (\<lambda>p. image_files w (t2w_path p)) ps"
  by (induction ps) (auto simp: List.map_filter_simps split: option.splits)

lemma length_load_images: "length (load_images w ps) \<le> length ps"
  by (induction ps) (auto split: option.splits)

text \<open>
  C10. With the method \<open>nyul\<close>, \<open>BatchStandardizationStep\<close> behaves on the list of
  patients as on its first 20 elements: the patients after them play no part. The training
  images are the T2W images that can be read among those first 20 patients, in their order,
  at most 20 of them; a patient whose image cannot be read contributes nothing and raises
  nothing. Whenever \<open>train\<close> returns on these images, the step succeeds, hands on the
  trained standardizer with the number of images it was trained on, and has written the
  parameter file.
\<close>

theorem standardization_trains_on_first_20:
  assumes "data ''patients'' = Some (VPatients patients)"
  shows "BatchStandardizationStep_execute ''nyul'' data w =
           BatchStandardizationStep_execute ''nyul''
             (data(''patients'' \<mapsto> VPatients (take 20 patients))) w
       \<and> length (load_images w (take 20 patients)) \<le> 20
       \<and> load_images w (take 20 patients) =
           List.map_filter (\<lambda>p. image_files w (t2w_path p)) (take 20 patients)
       \<and> (Nyul_train (NyulStandardizer_init default_landmarks_percentage default_standard_scale)
             (load_images w (take 20 patients)) = Inr s
           \<and> data ''output_directory'' = Some (VStr output_dir) \<longrightarrow>
           (\<exists>r w'. BatchStandardizationStep_execute ''nyul'' data w = (Inr r, w')
              \<and> r ''t2w_standardizer'' = Some (VStandardizer s)
              \<and> r ''standardization_trained'' = Some (VBool True)
              \<and> r ''training_samples'' = Some (VNat (length (load_images w (take 20 patients))))
              \<and> json_files w' (joinpath output_dir ''nyul_parameters.json'') = Some (parameters s)))"
proof (intro conjI impI)
  show "BatchStandardizationStep_execute ''nyul'' data w =
           BatchStandardizationStep_execute ''nyul''
             (data(''patients'' \<mapsto> VPatients (take 20 patients))) w"
    using assms by (simp add: BatchStandardizationStep_execute_def Let_def split: sum.splits)
next
  show "length (load_images w (take 20 patients)) \<le> 20"
    using length_load_images [of w "take 20 patients"] by simp
next
  show "load_images w (take 20 patients) =
           List.map_filter (\<lambda>p. image_files w (t2w_path p)) (take 20 patients)"
    by (rule load_images_map_filter)
next
  assume "Nyul_train (NyulStandardizer_init default_landmarks_percentage default_standard_scale)
             (load_images w (take 20 patients)) = Inr s
           \<and> data ''output_directory'' = Some (VStr output_dir)"
  then show "\<exists>r w'. BatchStandardizationStep_execute ''nyul'' data w = (Inr r, w')
              \<and> r ''t2w_standardizer'' = Some (VStandardizer s)
              \<and> r ''standardization_trained'' = Some (VBool True)
              \<and> r ''training_samples'' = Some (VNat (length (load_images w (take 20 patients))))
              \<and> json_files w' (joinpath output_dir ''nyul_parameters.json'') = Some (parameters s)"
    using assms by (simp add: BatchStandardizationStep_execute_def Let_def save_parameters_def)
qed


lemmas batch_eval = example_world_def example_input_def example_entries_def find_files_def
  patterns_def glob_def Let_def startswith_dot_def joinpath_def

lemmas nyul_eval2 = Nyul_train_def NyulStandardizer_init_def default_landmarks_percentage_def
  default_standard_scale_def np_percentile_def percentile1_def mean_axis0_def map_to_scale_def
  voxels_def

text \<open>
  The theorem at the example batch: of the two discovered patients the second has no
  readable T2W image, and the standardizer is trained on the one image of the first.
\<close>

theorem standardization_trains_on_first_20_witness:
  "\<exists>r w'. BatchStandardizationStep_execute ''nyul''
             (example_input(''patients'' \<mapsto> VPatients (scan ''/data'' example_entries)))
             example_world = (Inr r, w')
     \<and> r ''t2w_standardizer'' = Some (VStandardizer trained_example)
     \<and> r ''training_samples'' = Some (VNat 1)
     \<and> json_files w' ''/out/nyul_parameters.json'' = Some (parameters trained_example)"
proof -
  let ?ps = "scan ''/data'' example_entries"
  let ?data = "example_input(''patients'' \<mapsto> VPatients ?ps)"
  have a: "?data ''patients'' = Some (VPatients ?ps)" by simp
  have imgs: "load_images example_world (take 20 ?ps) = [IntArray [0, 1, 2, 3]]"
    by (simp add: batch_eval)
  have b: "Nyul_train (NyulStandardizer_init default_landmarks_percentage default_standard_scale)
             (load_images example_world (take 20 ?ps)) = Inr trained_example
           \<and> ?data ''output_directory'' = Some (VStr ''/out'')"
    unfolding imgs by (simp add: trained_example_def nyul_eval2 Let_def example_input_def)
  have "\<exists>r w'. BatchStandardizationStep_execute ''nyul'' ?data example_world = (Inr r, w')
      \<and> r ''t2w_standardizer'' = Some (VStandardizer trained_example)
      \<and> r ''standardization_trained'' = Some (VBool True)
      \<and> r ''training_samples'' =
          Some (VNat (length (load_images example_world (take 20 ?ps))))
      \<and> json_files w' (joinpath ''/out'' ''nyul_parameters.json'') =
          Some (parameters trained_example)"
    using standardization_trains_on_first_20
         [where data = ?data and patients = ?ps and w = example_world
            and s = trained_example and output_dir = "''/out''"] a b
    by blast
  then obtain r w' where
    "BatchStandardizationStep_execute ''nyul'' ?data example_world = (Inr r, w')"
    "r ''t2w_standardizer'' = Some (VStandardizer trained_example)"
    "r ''training_samples'' = Some (VNat (length (load_images example_world (take 20 ?ps))))"
    "json_files w' (joinpath ''/out'' ''nyul_parameters.json'') = Some (parameters trained_example)"
    by blast
  then show ?thesis
    by (intro exI [of _ r] exI [of _ w']) (simp add: imgs joinpath_def)
qed

subsection \<open>Processing the patients\<close>

lemma update_fresh: "k \<notin> fst ` set al \<Longrightarrow> AList.update k v al = al @ [(k, v)]"
  by (induction al) auto

lemma success_recorded_result: "success (recorded_result w od p) = completes w p"
  by (simp add: recorded_result_def process_single_patient_def completes_def
      split: item_behaviour.splits)

lemma completes_iff: "completes w p \<longleftrightarrow> (\<exists>outs t. processing w p = Completes outs t)"
  by (simp add: completes_def split: item_behaviour.splits)

lemma error_recorded_result:
  "processing w p = MkdirRaises e \<or> processing w p = BodyRaises e \<Longrightarrow>
   pr_error (recorded_result w od p) = Some (exn_msg e)"
  by (auto simp: recorded_result_def process_single_patient_def)

lemma record_patient_eq:
  "patient_id p \<notin> fst ` set (tr_detailed_results acc) \<Longrightarrow>
   record_patient w od p acc =
     \<lparr>tr_successful = tr_successful acc @ (if completes w p then [patient_id p] else []),
      tr_failed = tr_failed acc @ (if completes w p then [] else [patient_id p]),
      tr_detailed_results = tr_detailed_results acc @ [(patient_id p, recorded_result w od p)]\<rparr>"
  by (simp add: record_patient_def recorded_result_def process_single_patient_def
      completes_def update_fresh split: item_behaviour.splits)

lemma fold_record_patient:
  assumes "distinct (map patient_id xs)"
    and "\<forall>x \<in> set xs. patient_id x \<notin> fst ` set (tr_detailed_results acc)"
  shows "fold (record_patient w od) xs acc =
     \<lparr>tr_successful = tr_successful acc @ map patient_id (filter (completes w) xs),
      tr_failed = tr_failed acc @ map patient_id (filter (\<lambda>p. \<not> completes w p) xs),
      tr_detailed_results =
        tr_detailed_results acc @ map (\<lambda>p. (patient_id p, recorded_result w od p)) xs\<rparr>"
  using assms
proof (induction xs arbitrary: acc)
  case Nil
  then show ?case by simp
next
  case (Cons p xs)
  have fresh: "patient_id p \<notin> fst ` set (tr_detailed_results acc)"
    using Cons.prems by simp
  let ?acc' = "record_patient w od p acc"
  have acc': "?acc' =
     \<lparr>tr_successful = tr_successful acc @ (if completes w p then [patient_id p] else []),
      tr_failed = tr_failed acc @ (if completes w p then [] else [patient_id p]),
      tr_detailed_results = tr_detailed_results acc @ [(patient_id p, recorded_result w od p)]\<rparr>"
    using record_patient_eq [OF fresh] .
  have other: "\<forall>x \<in> set xs. patient_id x \<noteq> patient_id p"
    using Cons.prems(1) by (metis distinct.simps(2) imageI list.simps(9) list.set_map)
  have "distinct (map patient_id xs)" using Cons.prems by simp
  moreover have "\<forall>x \<in> set xs. patient_id x \<notin> fst ` set (tr_detailed_results ?acc')"
    unfolding acc' using Cons.prems(2) other by auto
  ultimately have "fold (record_patient w od) xs ?acc' =
     \<lparr>tr_successful = tr_successful ?acc' @ map patient_id (filter (completes w) xs),
      tr_failed = tr_failed ?acc' @ map patient_id (filter (\<lambda>p. \<not> completes w p) xs),
      tr_detailed_results =
        tr_detailed_results ?acc' @ map (\<lambda>p. (patient_id p, recorded_result w od p)) xs\<rparr>"
    by (rule Cons.IH)
  then show ?case by (simp add: acc')
qed


lemma mset_partition_map:
  "mset (map f (filter P xs)) + mset (map f (filter (\<lambda>x. \<not> P x) xs)) = mset (map f xs)"
  by (induction xs) auto

lemma map_of_keyed:
  "distinct (map f xs) \<Longrightarrow> x \<in> set xs \<Longrightarrow>
   map_of (map (\<lambda>p. (f p, g p)) xs) (f x) = Some (g x)"
  by (induction xs) (auto simp: rev_image_eqI)

text \<open>
  C8. \<open>BatchProcessingStep.execute\<close> on a list of work items with distinct identifiers, as
  discovery produces them, in the sequential mode or in the parallel mode with the futures
  completing in any order: the step returns and never raises; \<open>detailed_results\<close> has
  exactly one outcome for every item and for nothing else; every identifier is in exactly
  one of the lists \<open>successful\<close> and \<open>failed\<close>; and the outcome of an item depends on what
  the processing of that item ran into and on nothing else: it is a success exactly when
  the processing of the item ran to its end, and an exception raised for the item, before
  or inside the \<open>try\<close> block, is recorded as a failure of that item with its message.
\<close>

theorem batch_isolation:
  assumes "data ''patients'' = Some (VPatients patients)"
    and "data ''output_directory'' = Some (VStr output_dir)"
    and "mset (completion_order w patients) = mset patients"
    and "distinct (map patient_id patients)"
  shows "\<exists>succ fl det.
           BatchProcessingStep_execute is_parallel data w =
             (Inr [''successful'' \<mapsto> VIds succ, ''failed'' \<mapsto> VIds fl,
                   ''detailed_results'' \<mapsto> VDetailed det], w)
         \<and> mset (map fst det) = mset (map patient_id patients)
         \<and> mset (succ @ fl) = mset (map patient_id patients)
         \<and> (\<forall>p \<in> set patients. \<exists>r.
               map_of det (patient_id p) = Some r
             \<and> (success r \<longleftrightarrow> (\<exists>outs t. processing w p = Completes outs t))
             \<and> (patient_id p \<in> set succ \<longleftrightarrow> success r)
             \<and> (patient_id p \<in> set fl \<longleftrightarrow> \<not> success r)
             \<and> (\<forall>e. processing w p = MkdirRaises e \<or> processing w p = BodyRaises e \<longrightarrow>
                    \<not> success r \<and> pr_error r = Some (exn_msg e)))"
proof -
  define order where
    "order = (if is_parallel \<and> length patients > 1 then completion_order w patients else patients)"
  define succ where "succ = map patient_id (filter (completes w) order)"
  define fl where "fl = map patient_id (filter (\<lambda>p. \<not> completes w p) order)"
  define det where "det = map (\<lambda>p. (patient_id p, recorded_result w output_dir p)) order"
  have perm: "mset order = mset patients" using assms(3) by (simp add: order_def)
  then have set_eq: "set order = set patients" by (rule mset_eq_setD)
  have "mset (map patient_id order) = mset (map patient_id patients)"
    using perm by simp
  then have dist: "distinct (map patient_id order)"
    using assms(4) by (metis mset_eq_imp_distinct_iff)
  have inj: "inj_on patient_id (set order)"
    using dist by (simp add: distinct_map)
  have fold: "fold (record_patient w output_dir) order
                 \<lparr>tr_successful = [], tr_failed = [], tr_detailed_results = []\<rparr> =
              \<lparr>tr_successful = succ, tr_failed = fl, tr_detailed_results = det\<rparr>"
    using fold_record_patient [OF dist, of "\<lparr>tr_successful = [], tr_failed = [],
      tr_detailed_results = []\<rparr>" w output_dir]
    by (simp add: succ_def fl_def det_def)
  have exec: "BatchProcessingStep_execute is_parallel data w =
             (Inr [''successful'' \<mapsto> VIds succ, ''failed'' \<mapsto> VIds fl,
                   ''detailed_results'' \<mapsto> VDetailed det], w)"
    using assms(1,2) fold by (simp add: BatchProcessingStep_execute_def Let_def order_def)
  have keys: "mset (map fst det) = mset (map patient_id patients)"
    using perm by (simp add: det_def comp_def)
  have "mset (succ @ fl) = mset (map patient_id order)"
    using mset_partition_map [of patient_id "completes w" order]
    by (simp add: succ_def fl_def)
  then have both: "mset (succ @ fl) = mset (map patient_id patients)"
    using perm by simp
  have items: "\<forall>p \<in> set patients. \<exists>r.
               map_of det (patient_id p) = Some r
             \<and> (success r \<longleftrightarrow> (\<exists>outs t. processing w p = Completes outs t))
             \<and> (patient_id p \<in> set succ \<longleftrightarrow> success r)
             \<and> (patient_id p \<in> set fl \<longleftrightarrow> \<not> success r)
             \<and> (\<forall>e. processing w p = MkdirRaises e \<or> processing w p = BodyRaises e \<longrightarrow>
                    \<not> success r \<and> pr_error r = Some (exn_msg e))"
  proof
    fix p assume "p \<in> set patients"
    then have p: "p \<in> set order" using set_eq by simp
    let ?r = "recorded_result w output_dir p"
    have m: "map_of det (patient_id p) = Some ?r"
      unfolding det_def using dist p by (rule map_of_keyed)
    have s: "success ?r \<longleftrightarrow> (\<exists>outs t. processing w p = Completes outs t)"
      by (simp add: success_recorded_result completes_iff)
    have a: "patient_id p \<in> set succ \<longleftrightarrow> success ?r"
      using p inj by (auto simp: succ_def success_recorded_result dest: inj_onD)
    have b: "patient_id p \<in> set fl \<longleftrightarrow> \<not> success ?r"
      using p inj by (auto simp: fl_def success_recorded_result dest: inj_onD)
    have e: "\<forall>e. processing w p = MkdirRaises e \<or> processing w p = BodyRaises e \<longrightarrow>
                    \<not> success ?r \<and> pr_error ?r = Some (exn_msg e)"
      using error_recorded_result [of w p _ output_dir] s by auto
    show "\<exists>r. map_of det (patient_id p) = Some r
             \<and> (success r \<longleftrightarrow> (\<exists>outs t. processing w p = Completes outs t))
             \<and> (patient_id p \<in> set succ \<longleftrightarrow> success r)
             \<and> (patient_id p \<in> set fl \<longleftrightarrow> \<not> success r)
             \<and> (\<forall>e. processing w p = MkdirRaises e \<or> processing w p = BodyRaises e \<longrightarrow>
                    \<not> success r \<and> pr_error r = Some (exn_msg e))"
      using m s a b e by blast
  qed
  show ?thesis using exec keys both items by blast
qed


text \<open>The patients that discovery finds in the example listing.\<close>

lemma example_patients:
  "scan ''/data'' example_entries =
     [\<lparr>patient_id = ''p1'', t2w_path = ''/data/p1/p1_t2w.nii.gz'',
       adc_path = ''/data/p1/p1_adc.nii.gz'', patient_dir = ''/data/p1''\<rparr>,
      \<lparr>patient_id = ''p3'', t2w_path = ''/data/p3/scan_T2W.nii.gz'',
       adc_path = ''/data/p3/scan_ADC.nii.gz'', patient_dir = ''/data/p3''\<rparr>]"
  by (simp add: batch_eval)

text \<open>
  The theorem at the example batch in parallel mode, the second patient completing first
  and failing: the first patient succeeds all the same.
\<close>

theorem batch_isolation_witness:
  "fst (BatchProcessingStep_execute True
          (example_input(''patients'' \<mapsto> VPatients (scan ''/data'' example_entries)))
          example_world) =
     Inr [''successful'' \<mapsto> VIds [''p1''],
          ''failed'' \<mapsto> VIds [''p3''],
          ''detailed_results'' \<mapsto> VDetailed
            [(''p3'', \<lparr>success = False, pr_patient_id = Some ''p3'', outputs_saved = None,
                       output_directory = None, execution_time = None,
                       pr_error = Some ''cannot read image'',
                       pr_error_type = Some ''RuntimeError''\<rparr>),
             (''p1'', \<lparr>success = True, pr_patient_id = Some ''p1'',
                       outputs_saved = Some [''t2w_standardized'', ''registered_adc''],
                       output_directory = Some ''/out/p1'', execution_time = Some 2,
                       pr_error = None, pr_error_type = None\<rparr>)]]"
  using batch_isolation [where data = "example_input(''patients'' \<mapsto>
        VPatients (scan ''/data'' example_entries))"
      and patients = "scan ''/data'' example_entries" and output_dir = "''/out''"
      and w = example_world and is_parallel = True]
  by (simp add: example_patients BatchProcessingStep_execute_def record_patient_def
        process_single_patient_def example_world_def example_input_def joinpath_def)

subsection \<open>The report\<close>

text \<open>
  Given the batch results under the key that it reads, \<open>BatchReportingStep\<close> writes the
  counts, the rate, one row for every detailed result and a log of the failed patients.
\<close>

lemma report_of_batch_results:
  assumes "data ''output_directory'' = Some (VStr output_dir)"
    and "data ''total_patients'' = Some (VNat n)"
    and "data ''BatchProcessingStep'' =
           Some (VBatch \<lparr>br_successful = Some succ, br_failed = Some fl,
                          br_detailed_results = Some det\<rparr>)"
  shows "\<exists>r w' summary.
           BatchReportingStep_execute data w = (Inr r, w')
         \<and> summary_files w' (joinpath (joinpath output_dir ''reports'') ''batch_summary.json'') =
             Some summary
         \<and> sm_total_patients summary = n
         \<and> sm_successful summary = length succ
         \<and> sm_failed summary = length fl
         \<and> sm_success_rate summary = (if n > 0 then real (length succ) / real n else 0)
         \<and> csv_files w' (joinpath (joinpath output_dir ''reports'') ''batch_results.csv'') =
             Some (map make_row det)
         \<and> (fl \<noteq> [] \<longrightarrow>
               error_logs w' (joinpath (joinpath output_dir ''reports'') ''error_log.txt'') =
                 Some (map (make_error_block det) fl))"
  using assms
  by (simp add: BatchReportingStep_execute_def Let_def make_summary_def or_default_def)

text \<open>
  C2 fails on the code. The engine merges the dict that \<open>BatchProcessingStep\<close> returns
  into the context key by key, so the context has the keys \<open>successful\<close>, \<open>failed\<close> and
  \<open>detailed_results\<close> and no key \<open>BatchProcessingStep\<close>, which is where
  \<open>BatchReportingStep\<close> looks the batch results up. In the run of the whole pipeline on
  the example batch all four steps succeed, one patient succeeds and one fails, and the
  summary reports 0 successful and 0 failed of 2 patients with a success rate of 0, the
  table has no row, and no error log is written.
\<close>

theorem report_ignores_batch_results:
  "map (\<lambda>item. (fst item, so_status (snd item))) (step_results (results (fst example_run))) =
     [(''PatientDiscoveryStep'', ''success''), (''BatchStandardizationStep'', ''success''),
      (''BatchProcessingStep'', ''success''), (''BatchReportingStep'', ''success'')]
   \<and> map_option (\<lambda>outcome. map_option (\<lambda>r. (r ''successful'', r ''failed''))
                                 (result_dict (results (fst example_run)) outcome))
        (map_of (step_results (results (fst example_run))) ''BatchProcessingStep'') =
       Some (Some (Some (VIds [''p1'']), Some (VIds [''p3''])))
   \<and> summary_files (snd (snd example_run)) ''/out/reports/batch_summary.json'' =
       Some \<lparr>sm_total_patients = 2, sm_successful = 0, sm_failed = 0, sm_success_rate = 0,
             sm_registration_type = ''unknown'', sm_standardization_method = ''unknown'',
             sm_enable_segmentation = False\<rparr>
   \<and> csv_files (snd (snd example_run)) ''/out/reports/batch_results.csv'' = Some []
   \<and> error_logs (snd (snd example_run)) ''/out/reports/error_log.txt'' = None"
  by (simp add: example_run_def BatchPreprocessingPipeline_def execute_def finalize_def
        empty_results_def add_step_def BasePipeline_init_def make_step_def try_step_def
        merge_result_def result_dict_def
        PatientDiscoveryStep_execute_def BatchStandardizationStep_execute_def
        BatchProcessingStep_execute_def BatchReportingStep_execute_def
        example_patients record_patient_def process_single_patient_def
        example_world_def example_input_def joinpath_def nyul_eval2 Let_def
        make_summary_def empty_batch_results_def or_default_def get_str_def get_bool_def
        save_parameters_def)

end
